theory Spec2Isabelle
  imports Main "HOL-Library.Word" "HOL-Library.Multiset"
begin

section \<open>Directory data\<close>

text \<open>
  The go-ldap types the client consumes. An entry is a DN with an ordered list of
  attributes; an attribute is a name with its values.
\<close>

record EntryAttribute =
  Name :: string
  Values :: "string list"

record Entry =
  Entry_DN :: string
  Entry_Attributes :: "EntryAttribute list"

text \<open>
  go-ldap's \<^verbatim>\<open>Entry.GetAttributeValues\<close>: the values of the first attribute
  with the given name, the empty list when there is none.
  \<^verbatim>\<open>Entry.GetAttributeValue\<close>: the first of these values, the empty string when
  there is none.
\<close>

fun GetAttributeValues_loop :: "EntryAttribute list \<Rightarrow> string \<Rightarrow> string list" where
  "GetAttributeValues_loop [] attribute = []"
| "GetAttributeValues_loop (a # as) attribute =
     (if Name a = attribute then Values a else GetAttributeValues_loop as attribute)"

definition GetAttributeValues :: "Entry \<Rightarrow> string \<Rightarrow> string list" where
  "GetAttributeValues e attribute = GetAttributeValues_loop (Entry_Attributes e) attribute"

definition GetAttributeValue :: "Entry \<Rightarrow> string \<Rightarrow> string" where
  "GetAttributeValue e attribute =
     (case GetAttributeValues e attribute of [] \<Rightarrow> '''' | v # _ \<Rightarrow> v)"

datatype Scope = ScopeBaseObject | ScopeSingleLevel | ScopeWholeSubtree

datatype DerefAliases = NeverDerefAliases | DerefInSearching | DerefFindingBaseObj | DerefAlways

text \<open>
  A control is the paging control (page size, a \<^verbatim>\<open>uint32\<close>, and the cookie, a
  byte sequence) or some other control, of which only the type name matters here.
\<close>

datatype Control =
    ControlPaging "32 word" "8 word list"
  | ControlOther string

record SearchRequest =
  BaseDN :: string
  Scope :: Scope
  DerefAliases :: DerefAliases
  TimeLimit :: int
  Filter :: string
  Attributes :: "string list"
  Controls :: "Control list"

text \<open>
  The \<^verbatim>\<open>Controls\<close> slice of a search result can be \<^verbatim>\<open>nil\<close> (\<open>None\<close>) or a
  slice, possibly of length 0 (\<open>Some []\<close>): the source tests it against \<^verbatim>\<open>nil\<close>.
\<close>

record SearchResult =
  Entries :: "Entry list"
  Result_Controls :: "Control list option"

section \<open>Records of the client\<close>

record UserGroup =
  UserGroup_DN :: string
  UserGroup_Id :: string

record User =
  User_DN :: string
  User_Id :: string
  User_Attributes :: "string \<rightharpoonup> string"
  User_Groups :: "UserGroup list"

record GroupMember =
  GroupMember_DN :: string
  GroupMember_Id :: string

record Group =
  Group_DN :: string
  Group_Id :: string
  Group_Attributes :: "string \<rightharpoonup> string"
  Group_Members :: "GroupMember list"

record GetUserArgs =
  GetUserArgs_Id :: string
  GetUserArgs_Dn :: string
  GetUserArgs_Filter :: string
  GetUserArgs_Attributes :: "string list option"
  SkipGroupsSearch :: bool

record GetGroupArgs =
  GetGroupArgs_Id :: string
  GetGroupArgs_Dn :: string
  GetGroupArgs_Filter :: string
  GetGroupArgs_Attributes :: "string list option"
  SkipMembersSearch :: bool

text \<open>
  Errors are values, one constructor for each place where the source builds one:
  \<^item> \<open>ErrNoIdDnFilter\<close>: \<^verbatim>\<open>errors.New("neither of ID, DN or Filter provided")\<close>;
  \<^item> \<open>ErrNoIdDn\<close>: \<^verbatim>\<open>errors.New("neither of ID of DN provided")\<close> (the older variant);
  \<^item> \<open>ErrDirectory m\<close>: an error of the directory, with its message;
  \<^item> \<open>ErrCantGetGroup e\<close>: \<^verbatim>\<open>fmt.Errorf("can't get group: %s", err.Error())\<close>;
  \<^item> \<open>ErrGroupNotFound id\<close>: \<^verbatim>\<open>fmt.Errorf("group '%s' not found by ID", groupId)\<close>;
  \<^item> \<open>ErrCantGetAccount id e\<close>: \<^verbatim>\<open>fmt.Errorf("can't get account '%s': %s", userId, err.Error())\<close>;
  \<^item> \<open>ErrCantGetUserGroups e\<close>: \<^verbatim>\<open>fmt.Errorf("can't get user groups: %s", err.Error())\<close>;
  \<^item> \<open>ErrCantGetGroupMembers e\<close>: \<^verbatim>\<open>fmt.Errorf("can't get group members: %s", err.Error())\<close>;
  \<^item> \<open>ErrNilRequest\<close>: \<^verbatim>\<open>errors.New("nil request")\<close> (the older variant);
  \<^item> \<open>PanicIndexOutOfRange\<close>: the run-time panic of indexing a slice out of range,
    which is no returned error but the end of the call all the same;
  \<^item> \<open>PanicNilDereference\<close>: the run-time panic of reading a field through a
    \<^verbatim>\<open>nil\<close> pointer.
\<close>

datatype error =
    ErrNoIdDnFilter
  | ErrNoIdDn
  | ErrDirectory string
  | ErrCantGetGroup error
  | ErrGroupNotFound string
  | ErrCantGetAccount string error
  | ErrCantGetUserGroups error
  | ErrCantGetGroupMembers error
  | ErrNilRequest
  | PanicIndexOutOfRange
  | PanicNilDereference

text \<open>
  Configuration, as the source reads it (\<^verbatim>\<open>cl.Config.Users.FilterById\<close> and so on).
  \<open>Timeout\<close> stands for \<^verbatim>\<open>int(cl.Config.Timeout.Seconds())\<close>, the only use of the
  timeout.
\<close>

record UsersConfigs =
  Users_SearchBase :: string
  Users_IdAttribute :: string
  Users_Attributes :: "string list"
  Users_FilterById :: string
  Users_FilterByDn :: string
  Users_FilterByPerson :: string
  Users_FilterGroupsByDn :: string

record GroupsConfigs =
  Groups_SearchBase :: string
  Groups_IdAttribute :: string
  Groups_Attributes :: "string list"
  Groups_FilterById :: string
  Groups_FilterByDn :: string
  Groups_FilterByGroup :: string
  Groups_FilterMembersByDn :: string

record Config =
  Timeout :: int
  Users :: UsersConfigs
  Groups :: GroupsConfigs

text \<open>
  The client. Besides the configuration it holds what the operations call and this
  development takes as given:
  \<^item> \<open>ldap_Search\<close>: \<^verbatim>\<open>cl.ldap.Search\<close>, the directory's search;
  \<^item> \<open>searchEntry\<close>, \<open>searchEntries\<close>, \<open>updateAttribute\<close>: the client's helpers of
    these names (a search for at most one entry, a search for all entries, one
    attribute-replace of an entry's attribute);
  \<^item> \<open>Sprintf\<close>: \<^verbatim>\<open>fmt.Sprintf\<close> with one argument; \<open>EscapeFilter\<close>:
    \<^verbatim>\<open>ldap.EscapeFilter\<close>.
  A search is a function of its request: the directory does not change while one
  operation runs.
\<close>

record Client =
  Config :: Config
  ldap_Search :: "SearchRequest \<Rightarrow> error + SearchResult"
  searchEntry :: "SearchRequest \<Rightarrow> error + Entry option"
  searchEntries :: "SearchRequest \<Rightarrow> error + Entry list"
  updateAttribute :: "string \<Rightarrow> string \<Rightarrow> string list \<Rightarrow> error option"
  Sprintf :: "string \<Rightarrow> string \<Rightarrow> string"
  EscapeFilter :: "string \<Rightarrow> string"

text \<open>
  Every operation returns its result together with the calls it made to the directory,
  in order.
\<close>

datatype Call =
    CallSearch SearchRequest
  | CallSearchEntry SearchRequest
  | CallSearchEntries SearchRequest
  | CallUpdateAttribute string string "string list"

fun is_write :: "Call \<Rightarrow> bool" where
  "is_write (CallUpdateAttribute dn attribute vals) = True"
| "is_write c = False"

section \<open>Point lookups (user.go, group.go)\<close>

definition GetUserArgs_Validate :: "GetUserArgs \<Rightarrow> error option" where
  "GetUserArgs_Validate args =
     (if GetUserArgs_Id args = '''' \<and> GetUserArgs_Dn args = '''' \<and> GetUserArgs_Filter args = ''''
      then Some ErrNoIdDnFilter else None)"

definition GetGroupArgs_Validate :: "GetGroupArgs \<Rightarrow> error option" where
  "GetGroupArgs_Validate args =
     (if GetGroupArgs_Id args = '''' \<and> GetGroupArgs_Dn args = '''' \<and> GetGroupArgs_Filter args = ''''
      then Some ErrNoIdDnFilter else None)"

text \<open>
  The loop \<^verbatim>\<open>for _, a := range entry.Attributes { result.Attributes[a.Name] =
  entry.GetAttributeValue(a.Name) }\<close>.
\<close>

definition flatten_attributes :: "Entry \<Rightarrow> (string \<rightharpoonup> string)" where
  "flatten_attributes entry =
     fold (\<lambda>a m. m(Name a \<mapsto> GetAttributeValue entry (Name a))) (Entry_Attributes entry) Map.empty"

definition getUserGroups :: "Client \<Rightarrow> string \<Rightarrow> (error + UserGroup list) \<times> Call list" where
  "getUserGroups cl dn =
     (let req = \<lparr>BaseDN = Groups_SearchBase (Groups (Config cl)),
                 Scope = ScopeWholeSubtree,
                 DerefAliases = NeverDerefAliases,
                 TimeLimit = Timeout (Config cl),
                 Filter = Sprintf cl (Users_FilterGroupsByDn (Users (Config cl))) (EscapeFilter cl dn),
                 Attributes = [Groups_IdAttribute (Groups (Config cl))],
                 Controls = []\<rparr>
      in case searchEntries cl req of
           Inl err \<Rightarrow> (Inl err, [CallSearchEntries req])
         | Inr entries \<Rightarrow>
             (Inr (map (\<lambda>e. \<lparr>UserGroup_DN = Entry_DN e,
                              UserGroup_Id = GetAttributeValue e (Groups_IdAttribute (Groups (Config cl)))\<rparr>)
                       entries),
              [CallSearchEntries req]))"

definition getGroupMembers :: "Client \<Rightarrow> string \<Rightarrow> (error + GroupMember list) \<times> Call list" where
  "getGroupMembers cl dn =
     (let req = \<lparr>BaseDN = Users_SearchBase (Users (Config cl)),
                 Scope = ScopeWholeSubtree,
                 DerefAliases = NeverDerefAliases,
                 TimeLimit = Timeout (Config cl),
                 Filter = Sprintf cl (Groups_FilterMembersByDn (Groups (Config cl))) (EscapeFilter cl dn),
                 Attributes = [Users_IdAttribute (Users (Config cl))],
                 Controls = []\<rparr>
      in case searchEntries cl req of
           Inl err \<Rightarrow> (Inl err, [CallSearchEntries req])
         | Inr entries \<Rightarrow>
             (Inr (map (\<lambda>e. \<lparr>GroupMember_DN = Entry_DN e,
                              GroupMember_Id = GetAttributeValue e (Groups_IdAttribute (Groups (Config cl)))\<rparr>)
                       entries),
              [CallSearchEntries req]))"

definition GetUser_request :: "Client \<Rightarrow> GetUserArgs \<Rightarrow> SearchRequest" where
  "GetUser_request cl args =
     (let filter =
            (if GetUserArgs_Filter args \<noteq> '''' then GetUserArgs_Filter args
             else let filter = Sprintf cl (Users_FilterById (Users (Config cl))) (GetUserArgs_Id args)
                  in if GetUserArgs_Dn args \<noteq> ''''
                     then Sprintf cl (Users_FilterByDn (Users (Config cl))) (EscapeFilter cl (GetUserArgs_Dn args))
                     else filter);
          req = \<lparr>BaseDN = Users_SearchBase (Users (Config cl)),
                 Scope = ScopeWholeSubtree,
                 DerefAliases = NeverDerefAliases,
                 TimeLimit = Timeout (Config cl),
                 Filter = filter,
                 Attributes = Users_Attributes (Users (Config cl)),
                 Controls = []\<rparr>
      in case GetUserArgs_Attributes args of
           Some attrs \<Rightarrow> req\<lparr>Attributes := attrs\<rparr>
         | None \<Rightarrow> req)"

definition GetUser :: "Client \<Rightarrow> GetUserArgs \<Rightarrow> (error + User option) \<times> Call list" where
  "GetUser cl args =
     (case GetUserArgs_Validate args of
        Some err \<Rightarrow> (Inl err, [])
      | None \<Rightarrow>
          (let req = GetUser_request cl args
           in case searchEntry cl req of
                Inl err \<Rightarrow> (Inl err, [CallSearchEntry req])
              | Inr None \<Rightarrow> (Inr None, [CallSearchEntry req])
              | Inr (Some entry) \<Rightarrow>
                  (let result = \<lparr>User_DN = Entry_DN entry,
                                 User_Id = GetAttributeValue entry (Users_IdAttribute (Users (Config cl))),
                                 User_Attributes = flatten_attributes entry,
                                 User_Groups = []\<rparr>
                   in if \<not> SkipGroupsSearch args
                      then (case getUserGroups cl (Entry_DN entry) of
                              (Inl err, calls) \<Rightarrow>
                                (Inl (ErrCantGetUserGroups err), CallSearchEntry req # calls)
                            | (Inr groups, calls) \<Rightarrow>
                                (Inr (Some (result\<lparr>User_Groups := groups\<rparr>)), CallSearchEntry req # calls))
                      else (Inr (Some result), [CallSearchEntry req]))))"

definition GetGroup_request :: "Client \<Rightarrow> GetGroupArgs \<Rightarrow> SearchRequest" where
  "GetGroup_request cl args =
     (let filter =
            (if GetGroupArgs_Filter args \<noteq> '''' then GetGroupArgs_Filter args
             else let filter = Sprintf cl (Groups_FilterById (Groups (Config cl))) (GetGroupArgs_Id args)
                  in if GetGroupArgs_Dn args \<noteq> ''''
                     then Sprintf cl (Groups_FilterByDn (Groups (Config cl))) (EscapeFilter cl (GetGroupArgs_Dn args))
                     else filter);
          req = \<lparr>BaseDN = Groups_SearchBase (Groups (Config cl)),
                 Scope = ScopeWholeSubtree,
                 DerefAliases = NeverDerefAliases,
                 TimeLimit = Timeout (Config cl),
                 Filter = filter,
                 Attributes = Groups_Attributes (Groups (Config cl)),
                 Controls = []\<rparr>
      in case GetGroupArgs_Attributes args of
           Some attrs \<Rightarrow> req\<lparr>Attributes := attrs\<rparr>
         | None \<Rightarrow> req)"

definition GetGroup :: "Client \<Rightarrow> GetGroupArgs \<Rightarrow> (error + Group option) \<times> Call list" where
  "GetGroup cl args =
     (case GetGroupArgs_Validate args of
        Some err \<Rightarrow> (Inl err, [])
      | None \<Rightarrow>
          (let req = GetGroup_request cl args
           in case searchEntry cl req of
                Inl err \<Rightarrow> (Inl err, [CallSearchEntry req])
              | Inr None \<Rightarrow> (Inr None, [CallSearchEntry req])
              | Inr (Some entry) \<Rightarrow>
                  (let result = \<lparr>Group_DN = Entry_DN entry,
                                 Group_Id = GetAttributeValue entry (Groups_IdAttribute (Groups (Config cl))),
                                 Group_Attributes = flatten_attributes entry,
                                 Group_Members = []\<rparr>
                   in if \<not> SkipMembersSearch args
                      then (case getGroupMembers cl (Entry_DN entry) of
                              (Inl err, calls) \<Rightarrow>
                                (Inl (ErrCantGetGroupMembers err), CallSearchEntry req # calls)
                            | (Inr members, calls) \<Rightarrow>
                                (Inr (Some (result\<lparr>Group_Members := members\<rparr>)), CallSearchEntry req # calls))
                      else (Inr (Some result), [CallSearchEntry req]))))"

section \<open>Paginated listing (user.go, group.go)\<close>

text \<open>
  The \<^verbatim>\<open>for\<close> loop of \<^verbatim>\<open>ListUsers\<close> and of \<^verbatim>\<open>ListGroups\<close> (the two are the same
  text). Each round sends the request with the paging control, appends the entries of
  the response and looks at the controls of the response:
  \<^item> \<^verbatim>\<open>sr.Controls == nil\<close>: the loop ends;
  \<^item> \<^verbatim>\<open>sr.Controls[0]\<close> on a slice of length 0 is an index out of range, a panic;
  \<^item> \<^verbatim>\<open>sr.Controls[0]\<close> is no paging control: the loop ends;
  \<^item> its cookie has length 0: the loop ends;
  \<^item> otherwise the cookie is set on the request's control and the loop goes on.
  Nothing bounds the number of rounds, so the result is an \<open>option\<close>: \<open>None\<close> when
  the loop never ends.
\<close>

partial_function (option) paging_loop ::
  "Client \<Rightarrow> SearchRequest \<Rightarrow> 32 word \<Rightarrow> 8 word list \<Rightarrow> Entry list \<Rightarrow> Call list
     \<Rightarrow> ((error + Entry list) \<times> Call list) option" where
  "paging_loop cl req pagingSize cookie entries calls =
     (let req = req\<lparr>Controls := [ControlPaging pagingSize cookie]\<rparr>;
          calls = calls @ [CallSearch req]
      in case ldap_Search cl req of
           Inl err \<Rightarrow> Some (Inl err, calls)
         | Inr sr \<Rightarrow>
             (let entries = entries @ Entries sr
              in case Result_Controls sr of
                   None \<Rightarrow> Some (Inr entries, calls)
                 | Some [] \<Rightarrow> Some (Inl PanicIndexOutOfRange, calls)
                 | Some (ControlOther name # rest) \<Rightarrow> Some (Inr entries, calls)
                 | Some (ControlPaging size' cookie' # rest) \<Rightarrow>
                     if length cookie' = 0 then Some (Inr entries, calls)
                     else paging_loop cl req pagingSize cookie' entries calls))"

declare paging_loop.simps [code]

definition entry_to_User :: "Client \<Rightarrow> Entry \<Rightarrow> User" where
  "entry_to_User cl entry =
     \<lparr>User_DN = Entry_DN entry,
      User_Id = GetAttributeValue entry (Users_IdAttribute (Users (Config cl))),
      User_Attributes = flatten_attributes entry,
      User_Groups = []\<rparr>"

text \<open>The body of the result loop of \<^verbatim>\<open>ListGroups\<close>, as group.go has it.\<close>

definition entry_to_Group :: "Client \<Rightarrow> Entry \<Rightarrow> Group" where
  "entry_to_Group cl entry =
     \<lparr>Group_DN = Entry_DN entry,
      Group_Id = GetAttributeValue entry (Users_IdAttribute (Users (Config cl))),
      Group_Attributes = flatten_attributes entry,
      Group_Members = []\<rparr>"

text \<open>
  \<^verbatim>\<open>pageSize\<close> is a Go \<^verbatim>\<open>int\<close> (64 bits); \<^verbatim>\<open>uint32(pageSize)\<close> keeps its low 32 bits.
  The accumulated slice is \<^verbatim>\<open>nil\<close> exactly when nothing was appended, and then the
  result is \<^verbatim>\<open>nil, nil\<close>.
\<close>

definition ListUsers_request :: "Client \<Rightarrow> GetUserArgs \<Rightarrow> string \<Rightarrow> SearchRequest" where
  "ListUsers_request cl args flt =
     (let req = \<lparr>BaseDN = Users_SearchBase (Users (Config cl)),
                 Scope = ScopeWholeSubtree,
                 DerefAliases = NeverDerefAliases,
                 TimeLimit = Timeout (Config cl),
                 Filter = Users_FilterByPerson (Users (Config cl)),
                 Attributes = Users_Attributes (Users (Config cl)),
                 Controls = []\<rparr>;
          req = (case GetUserArgs_Attributes args of
                   Some attrs \<Rightarrow> req\<lparr>Attributes := attrs\<rparr>
                 | None \<Rightarrow> req)
      in if length flt > 0 then req\<lparr>Filter := flt\<rparr> else req)"

definition ListUsers ::
  "Client \<Rightarrow> GetUserArgs \<Rightarrow> 64 word \<Rightarrow> string \<Rightarrow> ((error + User list option) \<times> Call list) option" where
  "ListUsers cl args pageSize flt =
     (case paging_loop cl (ListUsers_request cl args flt) (ucast pageSize) [] [] [] of
        None \<Rightarrow> None
      | Some (Inl err, calls) \<Rightarrow> Some (Inl err, calls)
      | Some (Inr entries, calls) \<Rightarrow>
          if entries = [] then Some (Inr None, calls)
          else Some (Inr (Some (map (entry_to_User cl) entries)), calls))"

definition ListGroups_request :: "Client \<Rightarrow> GetGroupArgs \<Rightarrow> string \<Rightarrow> SearchRequest" where
  "ListGroups_request cl args flt =
     (let req = \<lparr>BaseDN = Groups_SearchBase (Groups (Config cl)),
                 Scope = ScopeWholeSubtree,
                 DerefAliases = NeverDerefAliases,
                 TimeLimit = Timeout (Config cl),
                 Filter = Groups_FilterByGroup (Groups (Config cl)),
                 Attributes = Groups_Attributes (Groups (Config cl)),
                 Controls = []\<rparr>;
          req = (case GetGroupArgs_Attributes args of
                   Some attrs \<Rightarrow> req\<lparr>Attributes := attrs\<rparr>
                 | None \<Rightarrow> req)
      in if length flt > 0 then req\<lparr>Filter := flt\<rparr> else req)"

definition ListGroups ::
  "Client \<Rightarrow> GetGroupArgs \<Rightarrow> 64 word \<Rightarrow> string \<Rightarrow> ((error + Group list option) \<times> Call list) option" where
  "ListGroups cl args pageSize flt =
     (case paging_loop cl (ListGroups_request cl args flt) (ucast pageSize) [] [] [] of
        None \<Rightarrow> None
      | Some (Inl err, calls) \<Rightarrow> Some (Inl err, calls)
      | Some (Inr entries, calls) \<Rightarrow>
          if entries = [] then Some (Inr None, calls)
          else Some (Inr (Some (map (entry_to_Group cl) entries)), calls))"

section \<open>Group membership (group.go)\<close>

fun IsGroupMember_loop :: "UserGroup list \<Rightarrow> string \<Rightarrow> bool" where
  "IsGroupMember_loop [] groupId = False"
| "IsGroupMember_loop (g # gs) groupId =
     (if UserGroup_Id g = groupId then True else IsGroupMember_loop gs groupId)"

definition IsGroupMember :: "User \<Rightarrow> string \<Rightarrow> bool" where
  "IsGroupMember u groupId = IsGroupMember_loop (User_Groups u) groupId"

definition MembersDn :: "Group \<Rightarrow> string list" where
  "MembersDn g = fold (\<lambda>m result. result @ [GroupMember_DN m]) (Group_Members g) []"

definition MembersId :: "Group \<Rightarrow> string list" where
  "MembersId g = fold (\<lambda>m result. result @ [GroupMember_Id m]) (Group_Members g) []"

definition popAddGroupMembers :: "Group \<Rightarrow> string list \<Rightarrow> string list" where
  "popAddGroupMembers g toAdd =
     (if length toAdd = 0 then MembersDn g
      else (let result = [];
                result = result @ MembersDn g;
                result = result @ toAdd
            in result))"

text \<open>\<^verbatim>\<open>slices.Contains(toDel, memberDN)\<close> is \<open>memberDN \<in> set toDel\<close>.\<close>

definition popDelGroupMembers :: "Group \<Rightarrow> string list \<Rightarrow> string list" where
  "popDelGroupMembers g toDel =
     fold (\<lambda>memberDN result. if \<not> (memberDN \<in> set toDel) then result @ [memberDN] else result)
          (MembersDn g) []"

text \<open>
  The lookups of a batch run in one goroutine each, and each sends at most one value,
  to \<^verbatim>\<open>ch\<close> or to \<^verbatim>\<open>errCh\<close>; the channels hold what was sent in the order in which the
  goroutines sent it. That order is the scheduler's choice: a schedule is a list of
  numbers, and \<open>completion_order sched ids\<close> takes, for each number \<open>k\<close> in turn, the
  identifier at position \<open>k mod n\<close> of the \<open>n\<close> that are left. Every schedule gives a
  permutation of the batch, and every permutation comes from a schedule
  (\<open>mset_completion_order\<close>, \<open>completion_order_complete\<close> below).
\<close>

fun completion_order :: "nat list \<Rightarrow> 'a list \<Rightarrow> 'a list" where
  "completion_order sched [] = []"
| "completion_order [] (x # xs) = x # xs"
| "completion_order (k # sched) (x # xs) =
     (let i = k mod length (x # xs)
      in (x # xs) ! i # completion_order sched (take i (x # xs) @ drop (Suc i) (x # xs)))"

datatype Sent = SentDn string | SentErr error | SentNothing

fun sent_dns :: "Sent list \<Rightarrow> string list" where
  "sent_dns [] = []"
| "sent_dns (SentDn dn # ss) = dn # sent_dns ss"
| "sent_dns (s # ss) = sent_dns ss"

fun sent_errs :: "Sent list \<Rightarrow> error list" where
  "sent_errs [] = []"
| "sent_errs (SentErr err # ss) = err # sent_errs ss"
| "sent_errs (s # ss) = sent_errs ss"

definition by_user_id :: "string \<Rightarrow> GetUserArgs" where
  "by_user_id userId =
     \<lparr>GetUserArgs_Id = userId, GetUserArgs_Dn = '''', GetUserArgs_Filter = '''',
      GetUserArgs_Attributes = None, SkipGroupsSearch = False\<rparr>"

definition by_group_id :: "string \<Rightarrow> GetGroupArgs" where
  "by_group_id groupId =
     \<lparr>GetGroupArgs_Id = groupId, GetGroupArgs_Dn = '''', GetGroupArgs_Filter = '''',
      GetGroupArgs_Attributes = None, SkipMembersSearch = False\<rparr>"

text \<open>The goroutine of \<^verbatim>\<open>AddGroupMembers\<close>: what it sends, and the calls it made.\<close>

definition add_worker :: "Client \<Rightarrow> string \<Rightarrow> string \<Rightarrow> Sent \<times> Call list" where
  "add_worker cl groupId userId =
     (case GetUser cl (by_user_id userId) of
        (Inl err, calls) \<Rightarrow> (SentErr (ErrCantGetAccount userId err), calls)
      | (Inr None, calls) \<Rightarrow> (SentNothing, calls)
      | (Inr (Some user), calls) \<Rightarrow>
          if IsGroupMember user groupId then (SentNothing, calls)
          else (SentDn (User_DN user), calls))"

text \<open>The goroutine of \<^verbatim>\<open>DeleteGroupMembers\<close>.\<close>

definition del_worker :: "Client \<Rightarrow> string \<Rightarrow> string \<Rightarrow> Sent \<times> Call list" where
  "del_worker cl groupId userId =
     (case GetUser cl (by_user_id userId) of
        (Inl err, calls) \<Rightarrow> (SentErr (ErrCantGetAccount userId err), calls)
      | (Inr None, calls) \<Rightarrow> (SentNothing, calls)
      | (Inr (Some user), calls) \<Rightarrow>
          if \<not> IsGroupMember user groupId then (SentNothing, calls)
          else (SentDn (User_DN user), calls))"

text \<open>
  \<^verbatim>\<open>AddGroupMembers\<close> and \<^verbatim>\<open>DeleteGroupMembers\<close>. All goroutines have finished at
  \<^verbatim>\<open>wg.Wait()\<close>; their calls are listed goroutine by goroutine in completion order. Every
  value on \<^verbatim>\<open>errCh\<close> is a non-nil error, so the loop over \<^verbatim>\<open>errCh\<close> returns the first
  one. The result is the pair \<^verbatim>\<open>(int, error)\<close>, with \<open>None\<close> for \<^verbatim>\<open>nil\<close>, and the
  calls made. The messages to the logger are left out.
\<close>

definition AddGroupMembers ::
  "Client \<Rightarrow> nat list \<Rightarrow> string \<Rightarrow> string list \<Rightarrow> (int \<times> error option) \<times> Call list" where
  "AddGroupMembers cl sched groupId membersIds =
     (case GetGroup cl (by_group_id groupId) of
        (Inl err, calls) \<Rightarrow> ((0, Some (ErrCantGetGroup err)), calls)
      | (Inr None, calls) \<Rightarrow> ((0, Some (ErrGroupNotFound groupId)), calls)
      | (Inr (Some grp), calls) \<Rightarrow>
          (let outcomes = map (add_worker cl groupId) (completion_order sched membersIds);
               calls = calls @ concat (map snd outcomes);
               errCh = sent_errs (map fst outcomes);
               ch = sent_dns (map fst outcomes)
           in case errCh of
                err # errs \<Rightarrow> ((0, Some err), calls)
              | [] \<Rightarrow>
                  (let toAdd = ch
                   in if length toAdd = 0 then ((0, None), calls)
                      else (let newMembers = popAddGroupMembers grp toAdd;
                                calls = calls @ [CallUpdateAttribute (Group_DN grp) ''member'' newMembers]
                            in case updateAttribute cl (Group_DN grp) ''member'' newMembers of
                                 Some err \<Rightarrow> ((0, Some err), calls)
                               | None \<Rightarrow> ((int (length toAdd), None), calls)))))"

definition DeleteGroupMembers ::
  "Client \<Rightarrow> nat list \<Rightarrow> string \<Rightarrow> string list \<Rightarrow> (int \<times> error option) \<times> Call list" where
  "DeleteGroupMembers cl sched groupId membersIds =
     (case GetGroup cl (by_group_id groupId) of
        (Inl err, calls) \<Rightarrow> ((0, Some (ErrCantGetGroup err)), calls)
      | (Inr None, calls) \<Rightarrow> ((0, Some (ErrGroupNotFound groupId)), calls)
      | (Inr (Some grp), calls) \<Rightarrow>
          (let outcomes = map (del_worker cl groupId) (completion_order sched membersIds);
               calls = calls @ concat (map snd outcomes);
               errCh = sent_errs (map fst outcomes);
               ch = sent_dns (map fst outcomes)
           in case errCh of
                err # errs \<Rightarrow> ((0, Some err), calls)
              | [] \<Rightarrow>
                  (let toDel = ch
                   in if length toDel = 0 then ((0, None), calls)
                      else (let newMembers = popDelGroupMembers grp toDel;
                                calls = calls @ [CallUpdateAttribute (Group_DN grp) ''member'' newMembers]
                            in case updateAttribute cl (Group_DN grp) ''member'' newMembers of
                                 Some err \<Rightarrow> ((0, Some err), calls)
                               | None \<Rightarrow> ((int (length toDel), None), calls)))))"

section \<open>The older variant of the batch (src/unnamed/part\_000)\<close>

record GetGroupequest =
  GetGroupequest_Id :: string
  GetGroupequest_Dn :: string
  GetGroupequest_Attributes :: "string list option"
  GetGroupequest_SkipMembersSearch :: bool

text \<open>The request is a pointer there: \<open>None\<close> is \<^verbatim>\<open>nil\<close>.\<close>

definition GetGroupequest_Validate :: "GetGroupequest option \<Rightarrow> error option" where
  "GetGroupequest_Validate req =
     (case req of
        None \<Rightarrow> Some ErrNilRequest
      | Some r \<Rightarrow>
          if GetGroupequest_Id r = '''' \<and> GetGroupequest_Dn r = '''' then Some ErrNoIdDn else None)"

text \<open>
  \<^verbatim>\<open>GetGroup\<close> of part\_000. Its \<^verbatim>\<open>getGroupMembers\<close> is the text of group.go's
  (with \<^verbatim>\<open>cl.cfg\<close> for \<^verbatim>\<open>cl.Config\<close>), so \<open>getGroupMembers\<close> stands for both.
\<close>

definition GetGroup_part000 ::
  "Client \<Rightarrow> GetGroupequest option \<Rightarrow> (error + Group option) \<times> Call list" where
  "GetGroup_part000 cl r0 =
     (case GetGroupequest_Validate r0 of
        Some err \<Rightarrow> (Inl err, [])
      | None \<Rightarrow>
          (case r0 of
             None \<Rightarrow> (Inl PanicNilDereference, [])
           | Some r \<Rightarrow>
               (let filter = Sprintf cl (Groups_FilterById (Groups (Config cl))) (GetGroupequest_Id r);
                    filter = (if GetGroupequest_Dn r \<noteq> ''''
                              then Sprintf cl (Groups_FilterByDn (Groups (Config cl)))
                                     (EscapeFilter cl (GetGroupequest_Dn r))
                              else filter);
                    req = \<lparr>BaseDN = Groups_SearchBase (Groups (Config cl)),
                           Scope = ScopeWholeSubtree,
                           DerefAliases = NeverDerefAliases,
                           TimeLimit = Timeout (Config cl),
                           Filter = filter,
                           Attributes = Groups_Attributes (Groups (Config cl)),
                           Controls = []\<rparr>;
                    req = (case GetGroupequest_Attributes r of
                             Some attrs \<Rightarrow> req\<lparr>Attributes := attrs\<rparr>
                           | None \<Rightarrow> req)
                in case searchEntry cl req of
                     Inl err \<Rightarrow> (Inl err, [CallSearchEntry req])
                   | Inr None \<Rightarrow> (Inr None, [CallSearchEntry req])
                   | Inr (Some entry) \<Rightarrow>
                       (let result = \<lparr>Group_DN = Entry_DN entry,
                                      Group_Id = GetAttributeValue entry (Groups_IdAttribute (Groups (Config cl))),
                                      Group_Attributes = flatten_attributes entry,
                                      Group_Members = []\<rparr>
                        in if \<not> GetGroupequest_SkipMembersSearch r
                           then (case getGroupMembers cl (Entry_DN entry) of
                                   (Inl err, calls) \<Rightarrow>
                                     (Inl (ErrCantGetGroupMembers err), CallSearchEntry req # calls)
                                 | (Inr members, calls) \<Rightarrow>
                                     (Inr (Some (result\<lparr>Group_Members := members\<rparr>)),
                                      CallSearchEntry req # calls))
                           else (Inr (Some result), [CallSearchEntry req])))))"

text \<open>
  The goroutine of part\_000's \<^verbatim>\<open>AddGroupMembers\<close>: an error of the lookup ends it
  with nothing sent. The \<^verbatim>\<open>GetUser\<close> that part\_000 calls (with a
  \<^verbatim>\<open>GetUserRequest\<close>) is not part of that file: the lookup by identifier is the
  parameter \<open>getUser\<close>, and \<^verbatim>\<open>IsGroupMember\<close> is that of user.go.
\<close>

definition add_worker_part000 ::
  "(string \<Rightarrow> (error + User option) \<times> Call list) \<Rightarrow> string \<Rightarrow> string \<Rightarrow> Sent \<times> Call list" where
  "add_worker_part000 getUser groupId userId =
     (case getUser userId of
        (Inl err, calls) \<Rightarrow> (SentNothing, calls)
      | (Inr None, calls) \<Rightarrow> (SentNothing, calls)
      | (Inr (Some user), calls) \<Rightarrow>
          if IsGroupMember user groupId then (SentNothing, calls)
          else (SentDn (User_DN user), calls))"

definition AddGroupMembers_part000 ::
  "Client \<Rightarrow> (string \<Rightarrow> (error + User option) \<times> Call list) \<Rightarrow> nat list \<Rightarrow> string \<Rightarrow> string list
     \<Rightarrow> (int \<times> error option) \<times> Call list" where
  "AddGroupMembers_part000 cl getUser sched groupId membersIds =
     (case GetGroup_part000 cl
             (Some \<lparr>GetGroupequest_Id = groupId, GetGroupequest_Dn = '''',
                    GetGroupequest_Attributes = None, GetGroupequest_SkipMembersSearch = False\<rparr>) of
        (Inl err, calls) \<Rightarrow> ((0, Some (ErrCantGetGroup err)), calls)
      | (Inr None, calls) \<Rightarrow> ((0, Some (ErrGroupNotFound groupId)), calls)
      | (Inr (Some grp), calls) \<Rightarrow>
          (let outcomes = map (add_worker_part000 getUser groupId) (completion_order sched membersIds);
               calls = calls @ concat (map snd outcomes);
               ch = sent_dns (map fst outcomes)
           in (let toAdd = ch
               in if length toAdd = 0 then ((0, None), calls)
                  else (let newMembers = popAddGroupMembers grp toAdd;
                            calls = calls @ [CallUpdateAttribute (Group_DN grp) ''member'' newMembers]
                        in case updateAttribute cl (Group_DN grp) ''member'' newMembers of
                             Some err \<Rightarrow> ((0, Some err), calls)
                           | None \<Rightarrow> ((int (length toAdd), None), calls)))))"

section \<open>Vocabulary of the properties\<close>

text \<open>
  What the lookup of one member identifier gives: an error, or no error and then
  whether the identifier qualifies for the batch (it resolves to a user who is not yet,
  respectively who is, a member of the group) and the DN it resolves to.
\<close>

definition resolution_error :: "Client \<Rightarrow> string \<Rightarrow> error option" where
  "resolution_error cl userId =
     (case fst (GetUser cl (by_user_id userId)) of Inl err \<Rightarrow> Some err | Inr u \<Rightarrow> None)"

text \<open>The error that the goroutine of an identifier sends when its lookup fails.\<close>

definition account_error :: "Client \<Rightarrow> string \<Rightarrow> error" where
  "account_error cl userId = ErrCantGetAccount userId (the (resolution_error cl userId))"

definition resolved_dn :: "Client \<Rightarrow> string \<Rightarrow> string" where
  "resolved_dn cl userId =
     (case fst (GetUser cl (by_user_id userId)) of Inr (Some user) \<Rightarrow> User_DN user | _ \<Rightarrow> '''')"

definition add_qualifies :: "Client \<Rightarrow> string \<Rightarrow> string \<Rightarrow> bool" where
  "add_qualifies cl groupId userId =
     (case fst (GetUser cl (by_user_id userId)) of
        Inr (Some user) \<Rightarrow> \<not> IsGroupMember user groupId
      | _ \<Rightarrow> False)"

definition del_qualifies :: "Client \<Rightarrow> string \<Rightarrow> string \<Rightarrow> bool" where
  "del_qualifies cl groupId userId =
     (case fst (GetUser cl (by_user_id userId)) of
        Inr (Some user) \<Rightarrow> IsGroupMember user groupId
      | _ \<Rightarrow> False)"

definition writes :: "Call list \<Rightarrow> Call list" where
  "writes calls = filter is_write calls"

text \<open>
  A server's answers to the paging loop, page by page: \<open>pages_served cl req size cookie srs\<close>
  says that the request with the cookie is answered by the first page of \<open>srs\<close>, that
  every page but the last carries a paging control with a cookie that is not empty,
  answered by the next page, and that the last page ends the listing:
  its controls are \<^verbatim>\<open>nil\<close>, or its first control is no paging control or a paging
  control with an empty cookie.
\<close>

fun next_cookie :: "SearchResult \<Rightarrow> 8 word list option" where
  "next_cookie sr =
     (case Result_Controls sr of
        Some (ControlPaging size' cookie' # rest) \<Rightarrow> if cookie' = [] then None else Some cookie'
      | _ \<Rightarrow> None)"

fun last_page :: "SearchResult \<Rightarrow> bool" where
  "last_page sr =
     (case Result_Controls sr of
        None \<Rightarrow> True
      | Some [] \<Rightarrow> False
      | Some (ControlPaging size' cookie' # rest) \<Rightarrow> cookie' = []
      | Some (ControlOther name # rest) \<Rightarrow> True)"

fun pages_served :: "Client \<Rightarrow> SearchRequest \<Rightarrow> 32 word \<Rightarrow> 8 word list \<Rightarrow> SearchResult list \<Rightarrow> bool" where
  "pages_served cl req pagingSize cookie [] = False"
| "pages_served cl req pagingSize cookie [sr] =
     (ldap_Search cl (req\<lparr>Controls := [ControlPaging pagingSize cookie]\<rparr>) = Inr sr \<and> last_page sr)"
| "pages_served cl req pagingSize cookie (sr # sr' # srs) =
     (ldap_Search cl (req\<lparr>Controls := [ControlPaging pagingSize cookie]\<rparr>) = Inr sr \<and>
      (case next_cookie sr of
         None \<Rightarrow> False
       | Some cookie' \<Rightarrow> pages_served cl req pagingSize cookie' (sr' # srs)))"

text \<open>The requests of the rounds of the loop, given the pages.\<close>

fun page_requests :: "SearchRequest \<Rightarrow> 32 word \<Rightarrow> 8 word list \<Rightarrow> SearchResult list \<Rightarrow> Call list" where
  "page_requests req pagingSize cookie [] = []"
| "page_requests req pagingSize cookie (sr # srs) =
     CallSearch (req\<lparr>Controls := [ControlPaging pagingSize cookie]\<rparr>) #
     (case next_cookie sr of
        None \<Rightarrow> []
      | Some cookie' \<Rightarrow> page_requests req pagingSize cookie' srs)"

section \<open>A directory to run the operations on\<close>

text \<open>
  Part of the table of entries of mock.go, in one of the orders in which the map can be
  iterated, with \<^verbatim>\<open>getEntriesByFilter\<close> and \<^verbatim>\<open>Search\<close> of the mock client. The
  filter templates are those that the filters of the table instantiate; \<open>subst_s\<close>
  puts the argument in the place of the first \<^verbatim>\<open>%s\<close>. The helpers of the client take
  the first entry, respectively all entries, of the mock's search, and what the mock's
  \<^verbatim>\<open>Modify\<close> answers.
\<close>

fun subst_s :: "string \<Rightarrow> string \<Rightarrow> string" where
  "subst_s [] a = []"
| "subst_s [c] a = [c]"
| "subst_s (c # d # cs) a = (if c = CHR ''%'' \<and> d = CHR ''s'' then a @ cs else c # subst_s (d # cs) a)"

definition fixture_entries :: "(string \<times> Entry) list" where
  "fixture_entries =
    [(''user1'', \<lparr>Entry_DN = ''OU=user1,DC=company,DC=com'',
        Entry_Attributes =
          [\<lparr>Name = ''sAMAccountName'', Values = [''user1'']\<rparr>,
           \<lparr>Name = ''filtersToFind'', Values =
              [''(&(objectClass=person)(sAMAccountName=user1))'',
               ''(&(objectClass=person)(distinguishedName=OU=user1,DC=company,DC=com))'',
               ''(&(objectCategory=person)(memberOf=OU=group1,DC=company,DC=com))'',
               ''customFilterToSearchUser'']\<rparr>]\<rparr>),
     (''user2'', \<lparr>Entry_DN = ''OU=user2,DC=company,DC=com'',
        Entry_Attributes =
          [\<lparr>Name = ''sAMAccountName'', Values = [''user2'']\<rparr>,
           \<lparr>Name = ''filtersToFind'', Values =
              [''(&(objectClass=person)(sAMAccountName=user2))'',
               ''(&(objectClass=person)(distinguishedName=OU=user2,DC=company,DC=com))'',
               ''(&(objectCategory=person)(memberOf=OU=group2,DC=company,DC=com))'']\<rparr>]\<rparr>),
     (''userToAdd'', \<lparr>Entry_DN = ''OU=userToAdd,DC=company,DC=com'',
        Entry_Attributes =
          [\<lparr>Name = ''sAMAccountName'', Values = [''userToAdd'']\<rparr>,
           \<lparr>Name = ''filtersToFind'', Values =
              [''(&(objectClass=person)(sAMAccountName=userToAdd))'',
               ''(&(objectClass=person)(distinguishedName=OU=userToAdd,DC=company,DC=com))'',
               ''(&(objectCategory=person)(memberOf=OU=group2,DC=company,DC=com))'']\<rparr>]\<rparr>),
     (''group1'', \<lparr>Entry_DN = ''OU=group1,DC=company,DC=com'',
        Entry_Attributes =
          [\<lparr>Name = ''sAMAccountName'', Values = [''group1'']\<rparr>,
           \<lparr>Name = ''filtersToFind'', Values =
              [''(&(objectClass=group)(sAMAccountName=group1))'',
               ''(&(objectClass=group)(distinguishedName=OU=group1,DC=company,DC=com))'',
               ''(&(objectClass=group)(member=OU=user1,DC=company,DC=com))'',
               ''customFilterToSearchGroup'']\<rparr>]\<rparr>),
     (''group2'', \<lparr>Entry_DN = ''OU=group2,DC=company,DC=com'',
        Entry_Attributes =
          [\<lparr>Name = ''sAMAccountName'', Values = [''group2'']\<rparr>,
           \<lparr>Name = ''filtersToFind'', Values =
              [''(&(objectClass=group)(sAMAccountName=group2))'',
               ''(&(objectClass=group)(distinguishedName=OU=group2,DC=company,DC=com))'',
               ''(&(objectClass=group)(member=OU=user2,DC=company,DC=com))'']\<rparr>]\<rparr>),
     (''entryForErr'', \<lparr>Entry_DN = ''OU=entryForErr,DC=company,DC=com'',
        Entry_Attributes =
          [\<lparr>Name = ''sAMAccountName'', Values = [''entryForErr'']\<rparr>,
           \<lparr>Name = ''filtersToFind'', Values =
              [''(&(objectClass=person)(sAMAccountName=entryForErr))'',
               ''(&(objectClass=person)(distinguishedName=OU=entryForErr,DC=company,DC=com))'',
               ''(&(objectClass=group)(sAMAccountName=entryForErr))'',
               ''(&(objectClass=group)(distinguishedName=OU=entryForErr,DC=company,DC=com))'',
               ''(&(objectCategory=person)(memberOf=OU=groupWithErrMember,DC=company,DC=com))'']\<rparr>]\<rparr>)]"

fun getEntriesByFilter_loop :: "(string \<times> Entry) list \<Rightarrow> string \<Rightarrow> Entry list \<Rightarrow> error + Entry list" where
  "getEntriesByFilter_loop [] flt result = Inr result"
| "getEntriesByFilter_loop ((key, entry) # rest) flt result =
     (if flt \<in> set (GetAttributeValues entry ''filtersToFind'')
      then (if key = ''entryForErr'' then Inl (ErrDirectory ''error for tests'')
            else getEntriesByFilter_loop rest flt (result @ [entry]))
      else getEntriesByFilter_loop rest flt result)"

definition mock_Search :: "(string \<times> Entry) list \<Rightarrow> SearchRequest \<Rightarrow> error + SearchResult" where
  "mock_Search table req =
     (case getEntriesByFilter_loop table (Filter req) [] of
        Inl err \<Rightarrow> Inl err
      | Inr entries \<Rightarrow> Inr \<lparr>Entries = entries, Result_Controls = None\<rparr>)"

fun getEntryByDn_loop :: "(string \<times> Entry) list \<Rightarrow> string \<Rightarrow> Entry option" where
  "getEntryByDn_loop [] dn = None"
| "getEntryByDn_loop ((key, entry) # rest) dn =
     (if Entry_DN entry = dn then Some entry else getEntryByDn_loop rest dn)"

text \<open>
  \<^verbatim>\<open>Modify\<close> of the mock client: it answers, and changes nothing in the table.
\<close>

definition mock_Modify :: "(string \<times> Entry) list \<Rightarrow> string \<Rightarrow> error option" where
  "mock_Modify table dn =
     (case getEntryByDn_loop table dn of
        None \<Rightarrow> Some (ErrDirectory ''entry not found'')
      | Some entry \<Rightarrow>
          if Entry_DN entry = ''OU=entryForErr,DC=company,DC=com''
          then Some (ErrDirectory ''error for tests'')
          else None)"

text \<open>The table of the mock client after a \<^verbatim>\<open>Modify\<close>: the same table.\<close>

definition mock_table_after_Modify :: "(string \<times> Entry) list \<Rightarrow> string \<Rightarrow> (string \<times> Entry) list" where
  "mock_table_after_Modify table dn = table"

definition fixture_config :: Config where
  "fixture_config =
     \<lparr>Timeout = 10,
      Users = \<lparr>Users_SearchBase = ''OU=users,DC=company,DC=com'',
               Users_IdAttribute = ''sAMAccountName'',
               Users_Attributes = [''sAMAccountName''],
               Users_FilterById = ''(&(objectClass=person)(sAMAccountName=%s))'',
               Users_FilterByDn = ''(&(objectClass=person)(distinguishedName=%s))'',
               Users_FilterByPerson = ''(&(objectClass=person))'',
               Users_FilterGroupsByDn = ''(&(objectClass=group)(member=%s))''\<rparr>,
      Groups = \<lparr>Groups_SearchBase = ''OU=groups,DC=company,DC=com'',
                Groups_IdAttribute = ''sAMAccountName'',
                Groups_Attributes = [''sAMAccountName''],
                Groups_FilterById = ''(&(objectClass=group)(sAMAccountName=%s))'',
                Groups_FilterByDn = ''(&(objectClass=group)(distinguishedName=%s))'',
                Groups_FilterByGroup = ''(&(objectClass=group))'',
                Groups_FilterMembersByDn = ''(&(objectCategory=person)(memberOf=%s))''\<rparr>\<rparr>"

definition mock_client :: "(string \<times> Entry) list \<Rightarrow> Client" where
  "mock_client table =
     \<lparr>Config = fixture_config,
      ldap_Search = mock_Search table,
      searchEntry = (\<lambda>req. case mock_Search table req of
                       Inl err \<Rightarrow> Inl err
                     | Inr sr \<Rightarrow> (case Entries sr of [] \<Rightarrow> Inr None | e # _ \<Rightarrow> Inr (Some e))),
      searchEntries = (\<lambda>req. case mock_Search table req of
                       Inl err \<Rightarrow> Inl err
                     | Inr sr \<Rightarrow> Inr (Entries sr)),
      updateAttribute = (\<lambda>dn attribute vals. mock_Modify table dn),
      Sprintf = subst_s,
      EscapeFilter = (\<lambda>s. s)\<rparr>"

definition fixture_client :: Client where
  "fixture_client = mock_client fixture_entries"

text \<open>
  The table of a directory in which \<^verbatim>\<open>userToAdd\<close> has become a member of
  \<^verbatim>\<open>group2\<close>: the group answers the search for the groups of that user.
\<close>

definition group2_with_userToAdd :: Entry where
  "group2_with_userToAdd =
     \<lparr>Entry_DN = ''OU=group2,DC=company,DC=com'',
      Entry_Attributes =
        [\<lparr>Name = ''sAMAccountName'', Values = [''group2'']\<rparr>,
         \<lparr>Name = ''filtersToFind'', Values =
            [''(&(objectClass=group)(sAMAccountName=group2))'',
             ''(&(objectClass=group)(distinguishedName=OU=group2,DC=company,DC=com))'',
             ''(&(objectClass=group)(member=OU=user2,DC=company,DC=com))'',
             ''(&(objectClass=group)(member=OU=userToAdd,DC=company,DC=com))'']\<rparr>]\<rparr>"

definition fixture_entries_after :: "(string \<times> Entry) list" where
  "fixture_entries_after =
     map (\<lambda>(key, entry). if key = ''group2'' then (key, group2_with_userToAdd) else (key, entry))
         fixture_entries"

definition fixture_client_after :: Client where
  "fixture_client_after = mock_client fixture_entries_after"

text \<open>Requests that give more than one of identifier, DN and filter.\<close>

definition args_dn_and_id :: GetUserArgs where
  "args_dn_and_id =
     \<lparr>GetUserArgs_Id = ''user2'', GetUserArgs_Dn = ''OU=user1,DC=company,DC=com'',
      GetUserArgs_Filter = '''', GetUserArgs_Attributes = None, SkipGroupsSearch = True\<rparr>"

definition args_filter_and_id :: GetGroupArgs where
  "args_filter_and_id =
     \<lparr>GetGroupArgs_Id = ''group2'', GetGroupArgs_Dn = ''OU=group2,DC=company,DC=com'',
      GetGroupArgs_Filter = ''customFilterToSearchGroup'', GetGroupArgs_Attributes = None,
      SkipMembersSearch = True\<rparr>"

text \<open>
  Servers for the listing. The first answers in two pages: to the empty cookie with two
  entries and the cookie \<open>[1]\<close>, to the cookie \<open>[1]\<close> with one entry and the empty cookie.
  The second ignores the paging control of the request and answers with one entry and no
  control, which go-ldap's \<^verbatim>\<open>Search\<close> delivers as a \<^verbatim>\<open>Controls\<close> slice of length 0 that
  is not \<^verbatim>\<open>nil\<close> (the mock client's \<^verbatim>\<open>Search\<close> leaves \<^verbatim>\<open>Controls\<close> \<^verbatim>\<open>nil\<close>).
\<close>

definition entry_named :: "string \<Rightarrow> Entry" where
  "entry_named n =
     \<lparr>Entry_DN = ''OU='' @ n @ '',DC=company,DC=com'',
      Entry_Attributes = [\<lparr>Name = ''sAMAccountName'', Values = [n]\<rparr>]\<rparr>"

definition page1 :: SearchResult where
  "page1 = \<lparr>Entries = [entry_named ''user1'', entry_named ''user2''],
            Result_Controls = Some [ControlPaging 0 [1]]\<rparr>"

definition page2 :: SearchResult where
  "page2 = \<lparr>Entries = [entry_named ''userToAdd''],
            Result_Controls = Some [ControlPaging 0 []]\<rparr>"

definition paged_Search :: "SearchRequest \<Rightarrow> error + SearchResult" where
  "paged_Search req =
     (case Controls req of
        [ControlPaging pagingSize cookie] \<Rightarrow>
          if cookie = [] then Inr page1
          else if cookie = [1] then Inr page2
          else Inl (ErrDirectory ''unknown cookie'')
      | _ \<Rightarrow> Inl (ErrDirectory ''paging control expected''))"

definition paged_client :: Client where
  "paged_client = fixture_client\<lparr>ldap_Search := paged_Search\<rparr>"

definition no_controls_page :: SearchResult where
  "no_controls_page = \<lparr>Entries = [entry_named ''user1''], Result_Controls = Some []\<rparr>"

definition no_controls_client :: Client where
  "no_controls_client = fixture_client\<lparr>ldap_Search := (\<lambda>req. Inr no_controls_page)\<rparr>"

text \<open>
  A client whose configuration names different identifier attributes for users and for
  groups, on the table of the mock.
\<close>

definition uid_config :: Config where
  "uid_config = fixture_config\<lparr>Users := (Users fixture_config)\<lparr>Users_IdAttribute := ''uid''\<rparr>\<rparr>"

definition uid_client :: Client where
  "uid_client = fixture_client\<lparr>Config := uid_config\<rparr>"

definition list_args :: GetGroupArgs where
  "list_args =
     \<lparr>GetGroupArgs_Id = '''', GetGroupArgs_Dn = '''', GetGroupArgs_Filter = '''',
      GetGroupArgs_Attributes = None, SkipMembersSearch = False\<rparr>"

section \<open>Properties\<close>

lemmas fixture_defs =
  fixture_client_def fixture_client_after_def mock_client_def fixture_config_def mock_Search_def
  mock_Modify_def fixture_entries_def fixture_entries_after_def group2_with_userToAdd_def
  GetAttributeValues_def GetAttributeValue_def flatten_attributes_def

lemmas lookup_defs =
  GetUser_def GetUser_request_def GetUserArgs_Validate_def getUserGroups_def by_user_id_def
  GetGroup_def GetGroup_request_def GetGroupArgs_Validate_def getGroupMembers_def by_group_id_def

text \<open>
  Claim C8. A \<^verbatim>\<open>GetGroup\<close> request, and a \<^verbatim>\<open>GetUser\<close> request, whose Id, Dn and
  Filter are all empty returns the validation error, and the call makes no call to the
  directory: its list of calls is empty.
\<close>

theorem validation_precedes_search:
  "(GetGroupArgs_Id gargs = '''' \<and> GetGroupArgs_Dn gargs = '''' \<and> GetGroupArgs_Filter gargs = ''''
      \<longrightarrow> GetGroup cl gargs = (Inl ErrNoIdDnFilter, [])) \<and>
   (GetUserArgs_Id uargs = '''' \<and> GetUserArgs_Dn uargs = '''' \<and> GetUserArgs_Filter uargs = ''''
      \<longrightarrow> GetUser cl uargs = (Inl ErrNoIdDnFilter, []))"
  by (simp add: GetGroup_def GetUser_def GetGroupArgs_Validate_def GetUserArgs_Validate_def)

theorem validation_precedes_search_witness:
  "GetGroupArgs_Id (by_group_id '''') = '''' \<and> GetGroupArgs_Dn (by_group_id '''') = '''' \<and>
   GetGroupArgs_Filter (by_group_id '''') = '''' \<and>
   GetGroup fixture_client (by_group_id '''') = (Inl ErrNoIdDnFilter, []) \<and>
   GetUserArgs_Id (by_user_id '''') = '''' \<and> GetUserArgs_Dn (by_user_id '''') = '''' \<and>
   GetUserArgs_Filter (by_user_id '''') = '''' \<and>
   GetUser fixture_client (by_user_id '''') = (Inl ErrNoIdDnFilter, [])"
  using validation_precedes_search [of "by_group_id ''''" fixture_client "by_user_id ''''"]
  by (simp add: by_group_id_def by_user_id_def)

text \<open>
  Claim C9. For a valid \<^verbatim>\<open>GetUser\<close> or \<^verbatim>\<open>GetGroup\<close> request, when the search
  matches no entry the result is \<^verbatim>\<open>nil, nil\<close> (\<open>Inr None\<close>); and when the call
  returns an error, a search failed: either the search for the entry, whose error is
  returned as it is, or the search for the groups of the user (the members of the group)
  that follows it, whose error is returned wrapped.
\<close>

theorem not_found_is_not_an_error:
  "(GetUserArgs_Validate uargs = None \<longrightarrow>
      (searchEntry cl (GetUser_request cl uargs) = Inr None \<longrightarrow> fst (GetUser cl uargs) = Inr None) \<and>
      (\<forall>err. fst (GetUser cl uargs) = Inl err \<longrightarrow>
         searchEntry cl (GetUser_request cl uargs) = Inl err \<or>
         (\<exists>entry err'. searchEntry cl (GetUser_request cl uargs) = Inr (Some entry) \<and>
            fst (getUserGroups cl (Entry_DN entry)) = Inl err' \<and> err = ErrCantGetUserGroups err'))) \<and>
   (GetGroupArgs_Validate gargs = None \<longrightarrow>
      (searchEntry cl (GetGroup_request cl gargs) = Inr None \<longrightarrow> fst (GetGroup cl gargs) = Inr None) \<and>
      (\<forall>err. fst (GetGroup cl gargs) = Inl err \<longrightarrow>
         searchEntry cl (GetGroup_request cl gargs) = Inl err \<or>
         (\<exists>entry err'. searchEntry cl (GetGroup_request cl gargs) = Inr (Some entry) \<and>
            fst (getGroupMembers cl (Entry_DN entry)) = Inl err' \<and> err = ErrCantGetGroupMembers err')))"
proof -
  have user: "fst (GetUser cl uargs) = Inr None"
    if "GetUserArgs_Validate uargs = None" "searchEntry cl (GetUser_request cl uargs) = Inr None"
    using that by (simp add: GetUser_def)
  have user_err: "searchEntry cl (GetUser_request cl uargs) = Inl err \<or>
         (\<exists>entry err'. searchEntry cl (GetUser_request cl uargs) = Inr (Some entry) \<and>
            fst (getUserGroups cl (Entry_DN entry)) = Inl err' \<and> err = ErrCantGetUserGroups err')"
    if v: "GetUserArgs_Validate uargs = None" and e: "fst (GetUser cl uargs) = Inl err" for err
  proof (cases "searchEntry cl (GetUser_request cl uargs)")
    case (Inl a)
    with v e show ?thesis by (simp add: GetUser_def)
  next
    case (Inr found)
    show ?thesis
    proof (cases found)
      case None
      with Inr v e show ?thesis by (simp add: GetUser_def)
    next
      case (Some entry)
      obtain r calls where g: "getUserGroups cl (Entry_DN entry) = (r, calls)"
        by (cases "getUserGroups cl (Entry_DN entry)")
      from Some Inr v e g show ?thesis
        by (cases r) (simp_all add: GetUser_def Let_def split: if_splits)
    qed
  qed
  have grp: "fst (GetGroup cl gargs) = Inr None"
    if "GetGroupArgs_Validate gargs = None" "searchEntry cl (GetGroup_request cl gargs) = Inr None"
    using that by (simp add: GetGroup_def)
  have grp_err: "searchEntry cl (GetGroup_request cl gargs) = Inl err \<or>
         (\<exists>entry err'. searchEntry cl (GetGroup_request cl gargs) = Inr (Some entry) \<and>
            fst (getGroupMembers cl (Entry_DN entry)) = Inl err' \<and> err = ErrCantGetGroupMembers err')"
    if v: "GetGroupArgs_Validate gargs = None" and e: "fst (GetGroup cl gargs) = Inl err" for err
  proof (cases "searchEntry cl (GetGroup_request cl gargs)")
    case (Inl a)
    with v e show ?thesis by (simp add: GetGroup_def)
  next
    case (Inr found)
    show ?thesis
    proof (cases found)
      case None
      with Inr v e show ?thesis by (simp add: GetGroup_def)
    next
      case (Some entry)
      obtain r calls where g: "getGroupMembers cl (Entry_DN entry) = (r, calls)"
        by (cases "getGroupMembers cl (Entry_DN entry)")
      from Some Inr v e g show ?thesis
        by (cases r) (simp_all add: GetGroup_def Let_def split: if_splits)
    qed
  qed
  from user user_err grp grp_err show ?thesis by blast
qed

theorem not_found_is_not_an_error_witness:
  "GetUserArgs_Validate (by_user_id ''nobody'') = None \<and>
   searchEntry fixture_client (GetUser_request fixture_client (by_user_id ''nobody'')) = Inr None \<and>
   fst (GetUser fixture_client (by_user_id ''nobody'')) = Inr None \<and>
   GetGroupArgs_Validate (by_group_id ''nogroup'') = None \<and>
   searchEntry fixture_client (GetGroup_request fixture_client (by_group_id ''nogroup'')) = Inr None \<and>
   fst (GetGroup fixture_client (by_group_id ''nogroup'')) = Inr None"
proof -
  have u: "GetUserArgs_Validate (by_user_id ''nobody'') = None"
    by (simp add: GetUserArgs_Validate_def by_user_id_def)
  have g: "GetGroupArgs_Validate (by_group_id ''nogroup'') = None"
    by (simp add: GetGroupArgs_Validate_def by_group_id_def)
  have su: "searchEntry fixture_client (GetUser_request fixture_client (by_user_id ''nobody'')) = Inr None"
    by (simp add: fixture_defs GetUser_request_def by_user_id_def)
  have sg: "searchEntry fixture_client (GetGroup_request fixture_client (by_group_id ''nogroup'')) = Inr None"
    by (simp add: fixture_defs GetGroup_request_def by_group_id_def)
  show ?thesis
    using not_found_is_not_an_error [of "by_user_id ''nobody''" fixture_client "by_group_id ''nogroup''"]
      u g su sg
    by simp
qed

lemma GetUser_calls:
  assumes "GetUserArgs_Validate args = None"
  shows "\<exists>calls. snd (GetUser cl args) = CallSearchEntry (GetUser_request cl args) # calls"
proof (cases "searchEntry cl (GetUser_request cl args)")
  case (Inl a)
  with assms show ?thesis by (simp add: GetUser_def)
next
  case (Inr found)
  show ?thesis
  proof (cases found)
    case None
    with Inr assms show ?thesis by (simp add: GetUser_def)
  next
    case (Some entry)
    obtain r calls where g: "getUserGroups cl (Entry_DN entry) = (r, calls)"
      by (cases "getUserGroups cl (Entry_DN entry)")
    from Some Inr assms g show ?thesis
      by (cases r) (simp_all add: GetUser_def Let_def)
  qed
qed

lemma GetGroup_calls:
  assumes "GetGroupArgs_Validate args = None"
  shows "\<exists>calls. snd (GetGroup cl args) = CallSearchEntry (GetGroup_request cl args) # calls"
proof (cases "searchEntry cl (GetGroup_request cl args)")
  case (Inl a)
  with assms show ?thesis by (simp add: GetGroup_def)
next
  case (Inr found)
  show ?thesis
  proof (cases found)
    case None
    with Inr assms show ?thesis by (simp add: GetGroup_def)
  next
    case (Some entry)
    obtain r calls where g: "getGroupMembers cl (Entry_DN entry) = (r, calls)"
      by (cases "getGroupMembers cl (Entry_DN entry)")
    from Some Inr assms g show ?thesis
      by (cases r) (simp_all add: GetGroup_def Let_def)
  qed
qed

text \<open>
  Claim C10. The filter of the search that \<^verbatim>\<open>GetUser\<close> and \<^verbatim>\<open>GetGroup\<close> issue for a
  valid request: the Filter argument as it is when it is not empty; otherwise the by-DN
  template with the escaped Dn when Dn is not empty; otherwise the by-Id template with
  the Id as it is.
\<close>

theorem filter_precedence:
  "(GetUserArgs_Validate uargs = None \<longrightarrow>
      (\<exists>req calls. snd (GetUser cl uargs) = CallSearchEntry req # calls \<and>
         Filter req =
           (if GetUserArgs_Filter uargs \<noteq> '''' then GetUserArgs_Filter uargs
            else if GetUserArgs_Dn uargs \<noteq> ''''
              then Sprintf cl (Users_FilterByDn (Users (Config cl))) (EscapeFilter cl (GetUserArgs_Dn uargs))
              else Sprintf cl (Users_FilterById (Users (Config cl))) (GetUserArgs_Id uargs)))) \<and>
   (GetGroupArgs_Validate gargs = None \<longrightarrow>
      (\<exists>req calls. snd (GetGroup cl gargs) = CallSearchEntry req # calls \<and>
         Filter req =
           (if GetGroupArgs_Filter gargs \<noteq> '''' then GetGroupArgs_Filter gargs
            else if GetGroupArgs_Dn gargs \<noteq> ''''
              then Sprintf cl (Groups_FilterByDn (Groups (Config cl))) (EscapeFilter cl (GetGroupArgs_Dn gargs))
              else Sprintf cl (Groups_FilterById (Groups (Config cl))) (GetGroupArgs_Id gargs))))"
proof -
  have uf: "Filter (GetUser_request cl uargs) =
           (if GetUserArgs_Filter uargs \<noteq> [] then GetUserArgs_Filter uargs
            else if GetUserArgs_Dn uargs \<noteq> []
              then Sprintf cl (Users_FilterByDn (Users (Config cl))) (EscapeFilter cl (GetUserArgs_Dn uargs))
              else Sprintf cl (Users_FilterById (Users (Config cl))) (GetUserArgs_Id uargs))"
    by (cases "GetUserArgs_Attributes uargs") (simp_all add: GetUser_request_def Let_def)
  have gf: "Filter (GetGroup_request cl gargs) =
           (if GetGroupArgs_Filter gargs \<noteq> [] then GetGroupArgs_Filter gargs
            else if GetGroupArgs_Dn gargs \<noteq> []
              then Sprintf cl (Groups_FilterByDn (Groups (Config cl))) (EscapeFilter cl (GetGroupArgs_Dn gargs))
              else Sprintf cl (Groups_FilterById (Groups (Config cl))) (GetGroupArgs_Id gargs))"
    by (cases "GetGroupArgs_Attributes gargs") (simp_all add: GetGroup_request_def Let_def)
  from uf gf GetUser_calls [of uargs cl] GetGroup_calls [of gargs cl] show ?thesis
    by blast
qed

theorem filter_precedence_witness:
  "GetUserArgs_Validate args_dn_and_id = None \<and>
   (\<exists>req calls. snd (GetUser fixture_client args_dn_and_id) = CallSearchEntry req # calls \<and>
      Filter req = ''(&(objectClass=person)(distinguishedName=OU=user1,DC=company,DC=com))'') \<and>
   GetGroupArgs_Validate args_filter_and_id = None \<and>
   (\<exists>req calls. snd (GetGroup fixture_client args_filter_and_id) = CallSearchEntry req # calls \<and>
      Filter req = ''customFilterToSearchGroup'')"
proof -
  have u: "GetUserArgs_Validate args_dn_and_id = None"
    by (simp add: GetUserArgs_Validate_def args_dn_and_id_def)
  have g: "GetGroupArgs_Validate args_filter_and_id = None"
    by (simp add: GetGroupArgs_Validate_def args_filter_and_id_def)
  show ?thesis
    using filter_precedence [of args_dn_and_id fixture_client args_filter_and_id] u g
    by (simp add: args_dn_and_id_def args_filter_and_id_def fixture_client_def mock_client_def
          fixture_config_def)
qed

lemma MembersDn_map: "MembersDn g = map GroupMember_DN (Group_Members g)"
proof -
  have "fold (\<lambda>m result. result @ [GroupMember_DN m]) ms acc = acc @ map GroupMember_DN ms" for ms acc
    by (induction ms arbitrary: acc) simp_all
  from this [of "Group_Members g" "[]"] show ?thesis by (simp add: MembersDn_def)
qed

lemma popDel_fold:
  "fold (\<lambda>memberDN result. if \<not> (memberDN \<in> set toDel) then result @ [memberDN] else result) dns acc
     = acc @ filter (\<lambda>dn. dn \<notin> set toDel) dns"
  by (induction dns arbitrary: acc) simp_all

text \<open>
  Claim C4. The new member list: for an addition the DNs of the group's members in their
  order followed by the DNs to add; for a removal the DNs of the group's members in their
  order without those to remove.
\<close>

theorem new_member_list:
  "popAddGroupMembers g toAdd = map GroupMember_DN (Group_Members g) @ toAdd \<and>
   popDelGroupMembers g toDel = filter (\<lambda>dn. dn \<notin> set toDel) (map GroupMember_DN (Group_Members g))"
  by (simp add: popAddGroupMembers_def popDelGroupMembers_def popDel_fold MembersDn_map)

subsection \<open>The order of completion is a permutation of the batch\<close>

lemma mset_without_nth:
  assumes "i < length ys"
  shows "add_mset (ys ! i) (mset (take i ys @ drop (Suc i) ys)) = mset ys"
proof -
  have "mset ys = mset (take i ys @ ys ! i # drop (Suc i) ys)"
    using id_take_nth_drop [OF assms] by simp
  then show ?thesis by simp
qed

lemma mset_completion_order: "mset (completion_order sched xs) = mset xs"
proof (induction sched xs rule: completion_order.induct)
  case (3 k sched x xs)
  define i where "i = k mod length (x # xs)"
  have i: "i < length (x # xs)" by (simp add: i_def)
  have IH: "mset (completion_order sched (take i (x # xs) @ drop (Suc i) (x # xs))) =
            mset (take i (x # xs) @ drop (Suc i) (x # xs))"
    unfolding i_def by (rule 3 [OF refl])
  have "completion_order (k # sched) (x # xs) =
          (x # xs) ! i # completion_order sched (take i (x # xs) @ drop (Suc i) (x # xs))"
    unfolding i_def by (simp only: completion_order.simps Let_def)
  then have "mset (completion_order (k # sched) (x # xs)) =
          add_mset ((x # xs) ! i) (mset (take i (x # xs) @ drop (Suc i) (x # xs)))"
    using IH by (simp only: mset.simps)
  also have "\<dots> = mset (x # xs)" by (rule mset_without_nth [OF i])
  finally show ?case .
qed simp_all

lemma set_completion_order: "set (completion_order sched xs) = set xs"
  using mset_completion_order [of sched xs] by (metis set_mset_mset)

lemma length_completion_order: "length (completion_order sched xs) = length xs"
  using mset_completion_order [of sched xs] by (metis size_mset)

lemma completion_order_complete:
  "mset ys = mset xs \<Longrightarrow> \<exists>sched. completion_order sched xs = ys"
proof (induction ys arbitrary: xs)
  case Nil
  then show ?case by simp
next
  case (Cons y ys)
  from Cons.prems have "y \<in> set xs" by (metis list.set_intros(1) set_mset_mset)
  then obtain i where i: "i < length xs" "xs ! i = y" by (auto simp: in_set_conv_nth)
  from i(1) obtain x xs' where xs: "xs = x # xs'" by (cases xs) auto
  have "add_mset y (mset (take i xs @ drop (Suc i) xs)) = add_mset y (mset ys)"
    using mset_without_nth [OF i(1)] i(2) Cons.prems by simp
  then have "mset ys = mset (take i xs @ drop (Suc i) xs)" by simp
  from Cons.IH [OF this] obtain sched where
    s: "completion_order sched (take i xs @ drop (Suc i) xs) = ys" by blast
  have "completion_order (i # sched) xs = y # ys"
    using i s unfolding xs by (simp add: Let_def)
  then show ?case by blast
qed

subsection \<open>Lookups only search\<close>

lemma writes_GetUser: "writes (snd (GetUser cl args)) = []"
proof (cases "GetUserArgs_Validate args")
  case (Some err)
  then show ?thesis by (simp add: GetUser_def writes_def)
next
  case None
  show ?thesis
  proof (cases "searchEntry cl (GetUser_request cl args)")
    case (Inl a)
    with None show ?thesis by (simp add: GetUser_def writes_def)
  next
    case (Inr found)
    show ?thesis
    proof (cases found)
      case N: None
      with Inr None show ?thesis by (simp add: GetUser_def writes_def)
    next
      case (Some entry)
      have g: "\<exists>r req. getUserGroups cl (Entry_DN entry) = (r, [CallSearchEntries req])"
        by (cases "searchEntries cl
              \<lparr>BaseDN = Groups_SearchBase (Groups (Config cl)), Scope = ScopeWholeSubtree,
                 DerefAliases = NeverDerefAliases, TimeLimit = Timeout (Config cl),
                 Filter = Sprintf cl (Users_FilterGroupsByDn (Users (Config cl))) (EscapeFilter cl (Entry_DN entry)),
                 Attributes = [Groups_IdAttribute (Groups (Config cl))], Controls = []\<rparr>")
           (simp_all add: getUserGroups_def Let_def)
      then obtain r req where "getUserGroups cl (Entry_DN entry) = (r, [CallSearchEntries req])"
        by blast
      with Some Inr None show ?thesis
        by (cases r) (simp_all add: GetUser_def Let_def writes_def)
    qed
  qed
qed

lemma writes_GetGroup: "writes (snd (GetGroup cl args)) = []"
proof (cases "GetGroupArgs_Validate args")
  case (Some err)
  then show ?thesis by (simp add: GetGroup_def writes_def)
next
  case None
  show ?thesis
  proof (cases "searchEntry cl (GetGroup_request cl args)")
    case (Inl a)
    with None show ?thesis by (simp add: GetGroup_def writes_def)
  next
    case (Inr found)
    show ?thesis
    proof (cases found)
      case N: None
      with Inr None show ?thesis by (simp add: GetGroup_def writes_def)
    next
      case (Some entry)
      have g: "\<exists>r req. getGroupMembers cl (Entry_DN entry) = (r, [CallSearchEntries req])"
        by (cases "searchEntries cl
              \<lparr>BaseDN = Users_SearchBase (Users (Config cl)), Scope = ScopeWholeSubtree,
                 DerefAliases = NeverDerefAliases, TimeLimit = Timeout (Config cl),
                 Filter = Sprintf cl (Groups_FilterMembersByDn (Groups (Config cl))) (EscapeFilter cl (Entry_DN entry)),
                 Attributes = [Users_IdAttribute (Users (Config cl))], Controls = []\<rparr>")
           (simp_all add: getGroupMembers_def Let_def)
      then obtain r req where "getGroupMembers cl (Entry_DN entry) = (r, [CallSearchEntries req])"
        by blast
      with Some Inr None show ?thesis
        by (cases r) (simp_all add: GetGroup_def Let_def writes_def)
    qed
  qed
qed

lemma writes_append: "writes (xs @ ys) = writes xs @ writes ys"
  by (simp add: writes_def)

lemma writes_concat: "(\<And>x. x \<in> set xss \<Longrightarrow> writes x = []) \<Longrightarrow> writes (concat xss) = []"
  by (induction xss) (simp_all add: writes_append, simp add: writes_def)

subsection \<open>What a goroutine sends\<close>

lemma add_worker_eq:
  "add_worker cl groupId userId =
     ((case resolution_error cl userId of
         Some err \<Rightarrow> SentErr (ErrCantGetAccount userId err)
       | None \<Rightarrow> if add_qualifies cl groupId userId then SentDn (resolved_dn cl userId) else SentNothing),
      snd (GetUser cl (by_user_id userId)))"
proof -
  obtain r calls where g: "GetUser cl (by_user_id userId) = (r, calls)"
    by (cases "GetUser cl (by_user_id userId)")
  show ?thesis
  proof (cases r)
    case (Inl err)
    with g show ?thesis
      by (simp add: add_worker_def resolution_error_def)
  next
    case (Inr found)
    with g show ?thesis
      by (cases found)
         (simp_all add: add_worker_def resolution_error_def add_qualifies_def resolved_dn_def)
  qed
qed

lemma del_worker_eq:
  "del_worker cl groupId userId =
     ((case resolution_error cl userId of
         Some err \<Rightarrow> SentErr (ErrCantGetAccount userId err)
       | None \<Rightarrow> if del_qualifies cl groupId userId then SentDn (resolved_dn cl userId) else SentNothing),
      snd (GetUser cl (by_user_id userId)))"
proof -
  obtain r calls where g: "GetUser cl (by_user_id userId) = (r, calls)"
    by (cases "GetUser cl (by_user_id userId)")
  show ?thesis
  proof (cases r)
    case (Inl err)
    with g show ?thesis
      by (simp add: del_worker_def resolution_error_def)
  next
    case (Inr found)
    with g show ?thesis
      by (cases found)
         (simp_all add: del_worker_def resolution_error_def del_qualifies_def resolved_dn_def)
  qed
qed

lemma error_not_qualifies:
  "resolution_error cl userId = Some err \<Longrightarrow>
     \<not> add_qualifies cl groupId userId \<and> \<not> del_qualifies cl groupId userId"
  by (cases "fst (GetUser cl (by_user_id userId))")
     (simp_all add: resolution_error_def add_qualifies_def del_qualifies_def)

lemma sent_dns_add:
  "sent_dns (map fst (map (add_worker cl groupId) ids)) =
     map (resolved_dn cl) (filter (add_qualifies cl groupId) ids)"
proof (induction ids)
  case Nil
  show ?case by simp
next
  case (Cons a ids)
  show ?case
  proof (cases "resolution_error cl a")
    case None
    with Cons show ?thesis by (simp add: add_worker_eq)
  next
    case (Some err)
    with Cons error_not_qualifies [OF Some, of groupId] show ?thesis by (simp add: add_worker_eq)
  qed
qed

lemma sent_dns_del:
  "sent_dns (map fst (map (del_worker cl groupId) ids)) =
     map (resolved_dn cl) (filter (del_qualifies cl groupId) ids)"
proof (induction ids)
  case Nil
  show ?case by simp
next
  case (Cons a ids)
  show ?case
  proof (cases "resolution_error cl a")
    case None
    with Cons show ?thesis by (simp add: del_worker_eq)
  next
    case (Some err)
    with Cons error_not_qualifies [OF Some, of groupId] show ?thesis by (simp add: del_worker_eq)
  qed
qed

lemma sent_errs_add:
  "sent_errs (map fst (map (add_worker cl groupId) ids)) =
     map (account_error cl) (filter (\<lambda>userId. resolution_error cl userId \<noteq> None) ids)"
proof (induction ids)
  case Nil
  show ?case by simp
next
  case (Cons a ids)
  then show ?case
    by (cases "resolution_error cl a") (simp_all add: add_worker_eq account_error_def)
qed

lemma sent_errs_del:
  "sent_errs (map fst (map (del_worker cl groupId) ids)) =
     map (account_error cl) (filter (\<lambda>userId. resolution_error cl userId \<noteq> None) ids)"
proof (induction ids)
  case Nil
  show ?case by simp
next
  case (Cons a ids)
  then show ?case
    by (cases "resolution_error cl a") (simp_all add: del_worker_eq account_error_def)
qed

lemma writes_add_workers: "writes (concat (map snd (map (add_worker cl groupId) ids))) = []"
  by (rule writes_concat) (auto simp: add_worker_eq writes_GetUser)

lemma writes_del_workers: "writes (concat (map snd (map (del_worker cl groupId) ids))) = []"
  by (rule writes_concat) (auto simp: del_worker_eq writes_GetUser)

subsection \<open>The batch, once the group is found\<close>

lemma AddGroupMembers_found:
  assumes g: "GetGroup cl (by_group_id groupId) = (Inr (Some grp), calls0)"
  shows "AddGroupMembers cl sched groupId membersIds =
    (let order = completion_order sched membersIds;
         calls = calls0 @ concat (map snd (map (add_worker cl groupId) order));
         toAdd = map (resolved_dn cl) (filter (add_qualifies cl groupId) order);
         newMembers = MembersDn grp @ toAdd
     in case filter (\<lambda>userId. resolution_error cl userId \<noteq> None) order of
          userId # rest \<Rightarrow> ((0, Some (account_error cl userId)), calls)
        | [] \<Rightarrow>
            if toAdd = [] then ((0, None), calls)
            else (case updateAttribute cl (Group_DN grp) ''member'' newMembers of
                    Some err \<Rightarrow>
                      ((0, Some err), calls @ [CallUpdateAttribute (Group_DN grp) ''member'' newMembers])
                  | None \<Rightarrow>
                      ((int (length toAdd), None),
                       calls @ [CallUpdateAttribute (Group_DN grp) ''member'' newMembers])))"
  unfolding AddGroupMembers_def g
  by (simp add: Let_def sent_dns_add sent_errs_add popAddGroupMembers_def
           del: map_map split: list.split option.split)

lemma popDel_eq:
  "popDelGroupMembers g toDel = filter (\<lambda>dn. dn \<notin> set toDel) (MembersDn g)"
  by (simp add: popDelGroupMembers_def popDel_fold)

lemma DeleteGroupMembers_found:
  assumes g: "GetGroup cl (by_group_id groupId) = (Inr (Some grp), calls0)"
  shows "DeleteGroupMembers cl sched groupId membersIds =
    (let order = completion_order sched membersIds;
         calls = calls0 @ concat (map snd (map (del_worker cl groupId) order));
         toDel = map (resolved_dn cl) (filter (del_qualifies cl groupId) order);
         newMembers = filter (\<lambda>dn. dn \<notin> set toDel) (MembersDn grp)
     in case filter (\<lambda>userId. resolution_error cl userId \<noteq> None) order of
          userId # rest \<Rightarrow> ((0, Some (account_error cl userId)), calls)
        | [] \<Rightarrow>
            if toDel = [] then ((0, None), calls)
            else (case updateAttribute cl (Group_DN grp) ''member'' newMembers of
                    Some err \<Rightarrow>
                      ((0, Some err), calls @ [CallUpdateAttribute (Group_DN grp) ''member'' newMembers])
                  | None \<Rightarrow>
                      ((int (length toDel), None),
                       calls @ [CallUpdateAttribute (Group_DN grp) ''member'' newMembers])))"
  unfolding DeleteGroupMembers_def g
  by (simp add: Let_def sent_dns_del sent_errs_del popDel_eq
           del: map_map split: list.split option.split)

lemma found_calls:
  assumes "fst (GetGroup cl (by_group_id groupId)) = Inr (Some grp)"
  shows "\<exists>calls0. GetGroup cl (by_group_id groupId) = (Inr (Some grp), calls0) \<and> writes calls0 = []"
  using assms writes_GetGroup [of cl "by_group_id groupId"]
  by (cases "GetGroup cl (by_group_id groupId)") simp

lemma resolution_error_iff:
  "resolution_error cl userId = Some err \<longleftrightarrow> fst (GetUser cl (by_user_id userId)) = Inl err"
  by (cases "fst (GetUser cl (by_user_id userId))") (simp_all add: resolution_error_def)

lemma first_failure:
  assumes "userId \<in> set order" "resolution_error cl userId = Some err"
  shows "\<exists>failed e rest. filter (\<lambda>userId. resolution_error cl userId \<noteq> None) order = failed # rest \<and>
           failed \<in> set order \<and> resolution_error cl failed = Some e \<and>
           account_error cl failed = ErrCantGetAccount failed e"
proof -
  define fs where "fs = filter (\<lambda>userId. resolution_error cl userId \<noteq> None) order"
  from assms have "userId \<in> set fs" by (simp add: fs_def)
  then obtain failed rest where f: "fs = failed # rest" by (cases fs) auto
  then have "failed \<in> set fs" by simp
  then have m: "failed \<in> set order" and "resolution_error cl failed \<noteq> None"
    by (simp_all add: fs_def)
  then obtain e where e: "resolution_error cl failed = Some e" by blast
  then have "account_error cl failed = ErrCantGetAccount failed e"
    by (simp add: account_error_def)
  with f m e show ?thesis unfolding fs_def by blast
qed

lemmas batch_defs =
  AddGroupMembers_def DeleteGroupMembers_def add_worker_def del_worker_def IsGroupMember_def
  popAddGroupMembers_def popDelGroupMembers_def MembersDn_def writes_def

text \<open>
  Claim C1. Let the group be found, and let the lookup of one identifier of the batch
  return an error. Then \<^verbatim>\<open>AddGroupMembers\<close> and \<^verbatim>\<open>DeleteGroupMembers\<close> return count 0 and
  the error of a failed lookup of the batch (wrapped with the identifier: the first one
  to arrive on the error channel), and the call makes no attribute-replace; when no
  other identifier fails, the error is that of the given identifier.
\<close>

theorem fail_fast_batch:
  assumes found: "\<exists>grp. fst (GetGroup cl (by_group_id groupId)) = Inr (Some grp)"
      and member: "userId \<in> set membersIds"
      and fails: "fst (GetUser cl (by_user_id userId)) = Inl err"
  shows "\<exists>failed e.
           failed \<in> set membersIds \<and> fst (GetUser cl (by_user_id failed)) = Inl e \<and>
           fst (AddGroupMembers cl sched groupId membersIds) = (0, Some (ErrCantGetAccount failed e)) \<and>
           writes (snd (AddGroupMembers cl sched groupId membersIds)) = [] \<and>
           fst (DeleteGroupMembers cl sched groupId membersIds) = (0, Some (ErrCantGetAccount failed e)) \<and>
           writes (snd (DeleteGroupMembers cl sched groupId membersIds)) = [] \<and>
           ((\<forall>other e'. other \<in> set membersIds \<and> fst (GetUser cl (by_user_id other)) = Inl e'
                \<longrightarrow> other = userId)
              \<longrightarrow> failed = userId \<and> e = err)"
proof -
  from found obtain grp where "fst (GetGroup cl (by_group_id groupId)) = Inr (Some grp)" ..
  from found_calls [OF this] obtain calls0 where
    g: "GetGroup cl (by_group_id groupId) = (Inr (Some grp), calls0)" and w0: "writes calls0 = []"
    by blast
  define order where "order = completion_order sched membersIds"
  have order: "set order = set membersIds"
    by (simp add: order_def set_completion_order)
  from fails have "resolution_error cl userId = Some err"
    by (simp add: resolution_error_iff)
  with member order first_failure [of userId order cl err] obtain failed e rest where
    f: "filter (\<lambda>userId. resolution_error cl userId \<noteq> None) order = failed # rest" and
    m: "failed \<in> set membersIds" and
    e: "resolution_error cl failed = Some e" and
    a: "account_error cl failed = ErrCantGetAccount failed e"
    by auto
  from e have ge: "fst (GetUser cl (by_user_id failed)) = Inl e"
    by (simp add: resolution_error_iff)
  have add: "AddGroupMembers cl sched groupId membersIds =
      ((0, Some (ErrCantGetAccount failed e)),
       calls0 @ concat (map snd (map (add_worker cl groupId) order)))"
    using f a by (simp add: AddGroupMembers_found [OF g] Let_def order_def del: map_map)
  have del: "DeleteGroupMembers cl sched groupId membersIds =
      ((0, Some (ErrCantGetAccount failed e)),
       calls0 @ concat (map snd (map (del_worker cl groupId) order)))"
    using f a by (simp add: DeleteGroupMembers_found [OF g] Let_def order_def del: map_map)
  have wa: "writes (snd (AddGroupMembers cl sched groupId membersIds)) = []"
    by (simp add: add writes_append w0 writes_add_workers del: map_map)
  have wd: "writes (snd (DeleteGroupMembers cl sched groupId membersIds)) = []"
    by (simp add: del writes_append w0 writes_del_workers del: map_map)
  have only: "failed = userId \<and> e = err"
    if "\<forall>other e'. other \<in> set membersIds \<and> fst (GetUser cl (by_user_id other)) = Inl e'
          \<longrightarrow> other = userId"
  proof -
    from that m ge have "failed = userId" by blast
    with ge fails show ?thesis by simp
  qed
  from m ge add del wa wd only show ?thesis by auto
qed

theorem fail_fast_batch_witness:
  "(\<exists>grp. fst (GetGroup fixture_client (by_group_id ''group1'')) = Inr (Some grp)) \<and>
   ''entryForErr'' \<in> set [''userToAdd'', ''entryForErr'', ''user2''] \<and>
   fst (GetUser fixture_client (by_user_id ''entryForErr'')) = Inl (ErrDirectory ''error for tests'') \<and>
   fst (AddGroupMembers fixture_client [1] ''group1'' [''userToAdd'', ''entryForErr'', ''user2''])
     = (0, Some (ErrCantGetAccount ''entryForErr'' (ErrDirectory ''error for tests''))) \<and>
   writes (snd (AddGroupMembers fixture_client [1] ''group1'' [''userToAdd'', ''entryForErr'', ''user2''])) = [] \<and>
   fst (DeleteGroupMembers fixture_client [1] ''group1'' [''userToAdd'', ''entryForErr'', ''user2''])
     = (0, Some (ErrCantGetAccount ''entryForErr'' (ErrDirectory ''error for tests''))) \<and>
   writes (snd (DeleteGroupMembers fixture_client [1] ''group1'' [''userToAdd'', ''entryForErr'', ''user2''])) = []"
proof -
  have h1: "\<exists>grp. fst (GetGroup fixture_client (by_group_id ''group1'')) = Inr (Some grp)"
    by (simp add: fixture_defs lookup_defs)
  have h2: "''entryForErr'' \<in> set [''userToAdd'', ''entryForErr'', ''user2'']"
    by simp
  have h3: "fst (GetUser fixture_client (by_user_id ''entryForErr'')) = Inl (ErrDirectory ''error for tests'')"
    by (simp add: fixture_defs lookup_defs)
  have u1: "fst (GetUser fixture_client (by_user_id ''userToAdd'')) \<noteq> Inl e'" for e'
    by (simp add: fixture_defs lookup_defs)
  have u2: "fst (GetUser fixture_client (by_user_id ''user2'')) \<noteq> Inl e'" for e'
    by (simp add: fixture_defs lookup_defs)
  have only: "\<forall>other e'. other \<in> set [''userToAdd'', ''entryForErr'', ''user2''] \<and>
      fst (GetUser fixture_client (by_user_id other)) = Inl e' \<longrightarrow> other = ''entryForErr''"
    using u1 u2 by auto
  from fail_fast_batch [OF h1 h2 h3, of "[1]"] only h1 h2 h3 show ?thesis
    by auto
qed

subsection \<open>A batch in which nothing qualifies\<close>

lemma add_nothing_qualifies:
  assumes found: "\<exists>grp. fst (GetGroup cl (by_group_id groupId)) = Inr (Some grp)"
      and h: "\<forall>userId \<in> set membersIds.
             fst (GetUser cl (by_user_id userId)) = Inr None \<or>
             (\<exists>user. fst (GetUser cl (by_user_id userId)) = Inr (Some user) \<and> IsGroupMember user groupId)"
  shows "fst (AddGroupMembers cl sched groupId membersIds) = (0, None) \<and>
         writes (snd (AddGroupMembers cl sched groupId membersIds)) = []"
proof -
  from found obtain grp where "fst (GetGroup cl (by_group_id groupId)) = Inr (Some grp)" ..
  from found_calls [OF this] obtain calls0 where
    g: "GetGroup cl (by_group_id groupId) = (Inr (Some grp), calls0)" and w0: "writes calls0 = []"
    by blast
  define order where "order = completion_order sched membersIds"
  have order: "set order = set membersIds"
    by (simp add: order_def set_completion_order)
  have "resolution_error cl userId = None \<and> \<not> add_qualifies cl groupId userId"
    if "userId \<in> set order" for userId
    using h that order by (auto simp: resolution_error_def add_qualifies_def)
  then have "filter (\<lambda>userId. resolution_error cl userId \<noteq> None) order = []"
    and "filter (add_qualifies cl groupId) order = []"
    by (simp_all add: filter_empty_conv)
  then have "AddGroupMembers cl sched groupId membersIds =
      ((0, None), calls0 @ concat (map snd (map (add_worker cl groupId) order)))"
    by (simp add: AddGroupMembers_found [OF g] Let_def order_def del: map_map)
  then show ?thesis
    by (simp add: writes_append w0 writes_add_workers del: map_map)
qed

lemma del_nothing_qualifies:
  assumes found: "\<exists>grp. fst (GetGroup cl (by_group_id groupId)) = Inr (Some grp)"
      and h: "\<forall>userId \<in> set membersIds.
             fst (GetUser cl (by_user_id userId)) = Inr None \<or>
             (\<exists>user. fst (GetUser cl (by_user_id userId)) = Inr (Some user) \<and> \<not> IsGroupMember user groupId)"
  shows "fst (DeleteGroupMembers cl sched groupId membersIds) = (0, None) \<and>
         writes (snd (DeleteGroupMembers cl sched groupId membersIds)) = []"
proof -
  from found obtain grp where "fst (GetGroup cl (by_group_id groupId)) = Inr (Some grp)" ..
  from found_calls [OF this] obtain calls0 where
    g: "GetGroup cl (by_group_id groupId) = (Inr (Some grp), calls0)" and w0: "writes calls0 = []"
    by blast
  define order where "order = completion_order sched membersIds"
  have order: "set order = set membersIds"
    by (simp add: order_def set_completion_order)
  have "resolution_error cl userId = None \<and> \<not> del_qualifies cl groupId userId"
    if "userId \<in> set order" for userId
    using h that order by (auto simp: resolution_error_def del_qualifies_def)
  then have "filter (\<lambda>userId. resolution_error cl userId \<noteq> None) order = []"
    and "filter (del_qualifies cl groupId) order = []"
    by (simp_all add: filter_empty_conv)
  then have "DeleteGroupMembers cl sched groupId membersIds =
      ((0, None), calls0 @ concat (map snd (map (del_worker cl groupId) order)))"
    by (simp add: DeleteGroupMembers_found [OF g] Let_def order_def del: map_map)
  then show ?thesis
    by (simp add: writes_append w0 writes_del_workers del: map_map)
qed

lemma add_success_no_errors:
  assumes ok: "snd (fst (AddGroupMembers cl sched groupId membersIds)) = None"
  shows "\<forall>userId \<in> set membersIds. resolution_error cl userId = None"
proof -
  obtain r calls0 where g: "GetGroup cl (by_group_id groupId) = (r, calls0)"
    by (cases "GetGroup cl (by_group_id groupId)")
  from ok g obtain found where r: "r = Inr found"
    by (cases r) (simp_all add: AddGroupMembers_def)
  from ok g r obtain grp where "found = Some grp"
    by (cases found) (simp_all add: AddGroupMembers_def)
  with g r have g': "GetGroup cl (by_group_id groupId) = (Inr (Some grp), calls0)" by simp
  define order where "order = completion_order sched membersIds"
  have "filter (\<lambda>userId. resolution_error cl userId \<noteq> None) order = []"
  proof (cases "filter (\<lambda>userId. resolution_error cl userId \<noteq> None) order")
    case (Cons a rest)
    with ok show ?thesis
      by (simp add: AddGroupMembers_found [OF g'] Let_def order_def del: map_map)
  qed simp
  then have "\<forall>userId \<in> set order. resolution_error cl userId = None"
    by (simp add: filter_empty_conv)
  then show ?thesis
    by (simp add: order_def set_completion_order)
qed

text \<open>
  Claim C3, amended. When the group is found and every identifier of the batch resolves
  to no record or to a user who is already a member of the group, \<^verbatim>\<open>AddGroupMembers\<close>
  returns \<^verbatim>\<open>(0, nil)\<close> and makes no attribute-replace; when every identifier resolves to
  no record or to a user who is not a member, so does \<^verbatim>\<open>DeleteGroupMembers\<close>. Hence a
  second \<^verbatim>\<open>AddGroupMembers\<close> with the same identifiers, after a first one that returned
  no error, returns \<^verbatim>\<open>(0, nil)\<close> and makes no attribute-replace, provided the directory of
  the second call (the client \<open>cl'\<close>) still finds the group, resolves the identifiers
  that qualified in the first call to members of the group, and resolves the others as
  before. Each call reads the directory anew: nothing of the first call reaches the second
  but through the directory.
\<close>

theorem nothing_qualifies_no_write:
  "((\<exists>grp. fst (GetGroup cl (by_group_id groupId)) = Inr (Some grp)) \<and>
    (\<forall>userId \<in> set membersIds.
        fst (GetUser cl (by_user_id userId)) = Inr None \<or>
        (\<exists>user. fst (GetUser cl (by_user_id userId)) = Inr (Some user) \<and> IsGroupMember user groupId))
      \<longrightarrow> fst (AddGroupMembers cl sched groupId membersIds) = (0, None) \<and>
          writes (snd (AddGroupMembers cl sched groupId membersIds)) = []) \<and>
   ((\<exists>grp. fst (GetGroup cl (by_group_id groupId)) = Inr (Some grp)) \<and>
    (\<forall>userId \<in> set membersIds.
        fst (GetUser cl (by_user_id userId)) = Inr None \<or>
        (\<exists>user. fst (GetUser cl (by_user_id userId)) = Inr (Some user) \<and> \<not> IsGroupMember user groupId))
      \<longrightarrow> fst (DeleteGroupMembers cl sched groupId membersIds) = (0, None) \<and>
          writes (snd (DeleteGroupMembers cl sched groupId membersIds)) = []) \<and>
   (snd (fst (AddGroupMembers cl sched groupId membersIds)) = None \<and>
    (\<exists>grp. fst (GetGroup cl' (by_group_id groupId)) = Inr (Some grp)) \<and>
    (\<forall>userId \<in> set membersIds.
        if add_qualifies cl groupId userId
        then \<exists>user. fst (GetUser cl' (by_user_id userId)) = Inr (Some user) \<and> IsGroupMember user groupId
        else fst (GetUser cl' (by_user_id userId)) = fst (GetUser cl (by_user_id userId)))
      \<longrightarrow> fst (AddGroupMembers cl' sched' groupId membersIds) = (0, None) \<and>
          writes (snd (AddGroupMembers cl' sched' groupId membersIds)) = [])"
proof (intro conjI impI)
  assume "(\<exists>grp. fst (GetGroup cl (by_group_id groupId)) = Inr (Some grp)) \<and>
    (\<forall>userId \<in> set membersIds.
        fst (GetUser cl (by_user_id userId)) = Inr None \<or>
        (\<exists>user. fst (GetUser cl (by_user_id userId)) = Inr (Some user) \<and> IsGroupMember user groupId))"
  then have r: "fst (AddGroupMembers cl sched groupId membersIds) = (0, None) \<and>
      writes (snd (AddGroupMembers cl sched groupId membersIds)) = []"
    using add_nothing_qualifies [of cl groupId membersIds sched] by blast
  from r show "fst (AddGroupMembers cl sched groupId membersIds) = (0, None)" ..
  from r show "writes (snd (AddGroupMembers cl sched groupId membersIds)) = []" ..
next
  assume "(\<exists>grp. fst (GetGroup cl (by_group_id groupId)) = Inr (Some grp)) \<and>
    (\<forall>userId \<in> set membersIds.
        fst (GetUser cl (by_user_id userId)) = Inr None \<or>
        (\<exists>user. fst (GetUser cl (by_user_id userId)) = Inr (Some user) \<and> \<not> IsGroupMember user groupId))"
  then have r: "fst (DeleteGroupMembers cl sched groupId membersIds) = (0, None) \<and>
      writes (snd (DeleteGroupMembers cl sched groupId membersIds)) = []"
    using del_nothing_qualifies [of cl groupId membersIds sched] by blast
  from r show "fst (DeleteGroupMembers cl sched groupId membersIds) = (0, None)" ..
  from r show "writes (snd (DeleteGroupMembers cl sched groupId membersIds)) = []" ..
next
  assume a: "snd (fst (AddGroupMembers cl sched groupId membersIds)) = None \<and>
    (\<exists>grp. fst (GetGroup cl' (by_group_id groupId)) = Inr (Some grp)) \<and>
    (\<forall>userId \<in> set membersIds.
        if add_qualifies cl groupId userId
        then \<exists>user. fst (GetUser cl' (by_user_id userId)) = Inr (Some user) \<and> IsGroupMember user groupId
        else fst (GetUser cl' (by_user_id userId)) = fst (GetUser cl (by_user_id userId)))"
  then have found': "\<exists>grp. fst (GetGroup cl' (by_group_id groupId)) = Inr (Some grp)" by blast
  from a add_success_no_errors [of cl sched groupId membersIds]
  have ne: "\<forall>userId \<in> set membersIds. resolution_error cl userId = None" by blast
  have before: "fst (GetUser cl (by_user_id userId)) = Inr None \<or>
        (\<exists>user. fst (GetUser cl (by_user_id userId)) = Inr (Some user) \<and> IsGroupMember user groupId)"
    if m: "userId \<in> set membersIds" and nq: "\<not> add_qualifies cl groupId userId" for userId
  proof (cases "fst (GetUser cl (by_user_id userId))")
    case (Inl err)
    then have "resolution_error cl userId = Some err" by (simp add: resolution_error_iff)
    with ne m show ?thesis by simp
  next
    case (Inr found)
    with nq show ?thesis by (cases found) (simp_all add: add_qualifies_def)
  qed
  have h: "\<forall>userId \<in> set membersIds.
        fst (GetUser cl' (by_user_id userId)) = Inr None \<or>
        (\<exists>user. fst (GetUser cl' (by_user_id userId)) = Inr (Some user) \<and> IsGroupMember user groupId)"
  proof
    fix userId assume m: "userId \<in> set membersIds"
    show "fst (GetUser cl' (by_user_id userId)) = Inr None \<or>
        (\<exists>user. fst (GetUser cl' (by_user_id userId)) = Inr (Some user) \<and> IsGroupMember user groupId)"
    proof (cases "add_qualifies cl groupId userId")
      case True
      with a m show ?thesis by auto
    next
      case False
      with a m have "fst (GetUser cl' (by_user_id userId)) = fst (GetUser cl (by_user_id userId))"
        by auto
      with before [OF m False] show ?thesis by simp
    qed
  qed
  from add_nothing_qualifies [OF found' h, of sched']
  have r: "fst (AddGroupMembers cl' sched' groupId membersIds) = (0, None) \<and>
      writes (snd (AddGroupMembers cl' sched' groupId membersIds)) = []" .
  from r show "fst (AddGroupMembers cl' sched' groupId membersIds) = (0, None)" ..
  from r show "writes (snd (AddGroupMembers cl' sched' groupId membersIds)) = []" ..
qed

theorem nothing_qualifies_no_write_witness:
  "(\<exists>grp. fst (GetGroup fixture_client (by_group_id ''group1'')) = Inr (Some grp)) \<and>
   (\<exists>user. fst (GetUser fixture_client (by_user_id ''user1'')) = Inr (Some user) \<and>
            IsGroupMember user ''group1'') \<and>
   fst (GetUser fixture_client (by_user_id ''nobody'')) = Inr None \<and>
   fst (AddGroupMembers fixture_client [1] ''group1'' [''user1'', ''nobody'']) = (0, None) \<and>
   writes (snd (AddGroupMembers fixture_client [1] ''group1'' [''user1'', ''nobody''])) = [] \<and>
   (\<exists>user. fst (GetUser fixture_client (by_user_id ''userToAdd'')) = Inr (Some user) \<and>
            \<not> IsGroupMember user ''group1'') \<and>
   fst (DeleteGroupMembers fixture_client [] ''group1'' [''userToAdd'', ''nobody'']) = (0, None) \<and>
   writes (snd (DeleteGroupMembers fixture_client [] ''group1'' [''userToAdd'', ''nobody''])) = [] \<and>
   fst (AddGroupMembers fixture_client [] ''group2'' [''userToAdd'']) = (1, None) \<and>
   (\<exists>grp. fst (GetGroup fixture_client_after (by_group_id ''group2'')) = Inr (Some grp)) \<and>
   add_qualifies fixture_client ''group2'' ''userToAdd'' \<and>
   (\<exists>user. fst (GetUser fixture_client_after (by_user_id ''userToAdd'')) = Inr (Some user) \<and>
            IsGroupMember user ''group2'') \<and>
   fst (AddGroupMembers fixture_client_after [] ''group2'' [''userToAdd'']) = (0, None) \<and>
   writes (snd (AddGroupMembers fixture_client_after [] ''group2'' [''userToAdd''])) = []"
proof -
  have g1: "\<exists>grp. fst (GetGroup fixture_client (by_group_id ''group1'')) = Inr (Some grp)"
    by (simp add: fixture_defs lookup_defs)
  have m1: "\<exists>user. fst (GetUser fixture_client (by_user_id ''user1'')) = Inr (Some user) \<and>
            IsGroupMember user ''group1''"
    by (simp add: fixture_defs lookup_defs IsGroupMember_def)
  have n: "fst (GetUser fixture_client (by_user_id ''nobody'')) = Inr None"
    by (simp add: fixture_defs lookup_defs)
  have u1: "\<exists>user. fst (GetUser fixture_client (by_user_id ''userToAdd'')) = Inr (Some user) \<and>
            \<not> IsGroupMember user ''group1''"
    by (simp add: fixture_defs lookup_defs IsGroupMember_def)
  have first: "fst (AddGroupMembers fixture_client [] ''group2'' [''userToAdd'']) = (1, None)"
    by (simp add: fixture_defs lookup_defs batch_defs)
  have g2: "\<exists>grp. fst (GetGroup fixture_client_after (by_group_id ''group2'')) = Inr (Some grp)"
    by (simp add: fixture_defs lookup_defs)
  have q: "add_qualifies fixture_client ''group2'' ''userToAdd''"
    by (simp add: add_qualifies_def fixture_defs lookup_defs IsGroupMember_def)
  have m2: "\<exists>user. fst (GetUser fixture_client_after (by_user_id ''userToAdd'')) = Inr (Some user) \<and>
            IsGroupMember user ''group2''"
    by (simp add: fixture_defs lookup_defs IsGroupMember_def)
  from nothing_qualifies_no_write [of fixture_client "''group1''" "[''user1'', ''nobody'']" "[1]"] g1 m1 n
  have add: "fst (AddGroupMembers fixture_client [1] ''group1'' [''user1'', ''nobody'']) = (0, None) \<and>
      writes (snd (AddGroupMembers fixture_client [1] ''group1'' [''user1'', ''nobody''])) = []"
    by simp
  from nothing_qualifies_no_write [of fixture_client "''group1''" "[''userToAdd'', ''nobody'']" "[]"] g1 u1 n
  have del: "fst (DeleteGroupMembers fixture_client [] ''group1'' [''userToAdd'', ''nobody'']) = (0, None) \<and>
      writes (snd (DeleteGroupMembers fixture_client [] ''group1'' [''userToAdd'', ''nobody''])) = []"
    by simp
  from nothing_qualifies_no_write
         [of fixture_client "''group2''" "[''userToAdd'']" "[]" fixture_client_after "[]"]
       first g2 q m2
  have second: "fst (AddGroupMembers fixture_client_after [] ''group2'' [''userToAdd'']) = (0, None) \<and>
      writes (snd (AddGroupMembers fixture_client_after [] ''group2'' [''userToAdd''])) = []"
    by simp
  from g1 m1 n add u1 del first g2 q m2 second show ?thesis by blast
qed

text \<open>
  The claim as it stands, without the condition on the directory, fails on the mock
  directory of mock.go: its \<^verbatim>\<open>Modify\<close> answers without changing the table, so the
  second \<^verbatim>\<open>AddGroupMembers\<close> finds \<^verbatim>\<open>userToAdd\<close> no member of \<^verbatim>\<open>group2\<close>, as the first
  did, and adds it again.
\<close>

theorem second_call_on_mock_adds_again:
  "fst (AddGroupMembers (mock_client fixture_entries) [] ''group2'' [''userToAdd'']) = (1, None) \<and>
   mock_Modify fixture_entries ''OU=group2,DC=company,DC=com'' = None \<and>
   fst (AddGroupMembers
          (mock_client (mock_table_after_Modify fixture_entries ''OU=group2,DC=company,DC=com''))
          [] ''group2'' [''userToAdd'']) = (1, None) \<and>
   writes (snd (AddGroupMembers
          (mock_client (mock_table_after_Modify fixture_entries ''OU=group2,DC=company,DC=com''))
          [] ''group2'' [''userToAdd''])) =
     [CallUpdateAttribute ''OU=group2,DC=company,DC=com'' ''member''
        [''OU=user2,DC=company,DC=com'', ''OU=userToAdd,DC=company,DC=com'',
         ''OU=userToAdd,DC=company,DC=com'']]"
  by (simp add: fixture_defs lookup_defs batch_defs mock_table_after_Modify_def)

lemma AddGroupMembers_not_found:
  assumes "\<forall>grp. fst (GetGroup cl (by_group_id groupId)) \<noteq> Inr (Some grp)"
  shows "snd (AddGroupMembers cl sched groupId membersIds) = snd (GetGroup cl (by_group_id groupId))"
proof -
  obtain r calls0 where g: "GetGroup cl (by_group_id groupId) = (r, calls0)"
    by (cases "GetGroup cl (by_group_id groupId)")
  show ?thesis
  proof (cases r)
    case (Inl err)
    with g show ?thesis by (simp add: AddGroupMembers_def)
  next
    case (Inr found)
    with g assms have "found = None" by (cases found) simp_all
    with g Inr show ?thesis by (simp add: AddGroupMembers_def)
  qed
qed

lemma DeleteGroupMembers_not_found:
  assumes "\<forall>grp. fst (GetGroup cl (by_group_id groupId)) \<noteq> Inr (Some grp)"
  shows "snd (DeleteGroupMembers cl sched groupId membersIds) = snd (GetGroup cl (by_group_id groupId))"
proof -
  obtain r calls0 where g: "GetGroup cl (by_group_id groupId) = (r, calls0)"
    by (cases "GetGroup cl (by_group_id groupId)")
  show ?thesis
  proof (cases r)
    case (Inl err)
    with g show ?thesis by (simp add: DeleteGroupMembers_def)
  next
    case (Inr found)
    with g assms have "found = None" by (cases found) simp_all
    with g Inr show ?thesis by (simp add: DeleteGroupMembers_def)
  qed
qed

lemma mset_selected:
  "mset (map f (filter P (completion_order sched xs))) = mset (map f (filter P xs))"
proof -
  have "mset (filter P (completion_order sched xs)) = mset (filter P xs)"
    by (simp add: mset_completion_order)
  then have "image_mset f (mset (filter P (completion_order sched xs))) = image_mset f (mset (filter P xs))"
    by (rule arg_cong)
  then show ?thesis by (simp only: mset_map)
qed

lemma length_selected:
  "length (filter P (completion_order sched xs)) = length (filter P xs)"
proof -
  have "mset (filter P (completion_order sched xs)) = mset (filter P xs)"
    by (simp add: mset_completion_order)
  then show ?thesis by (metis size_mset)
qed

text \<open>
  Claim C7. When \<^verbatim>\<open>AddGroupMembers\<close> (\<^verbatim>\<open>DeleteGroupMembers\<close>) makes a write, the group
  was found and the writes of the call are exactly one attribute-replace, of the attribute
  \<^verbatim>\<open>member\<close> of the group's DN, with the full new list: the members' DNs followed by
  the DNs of the identifiers that qualify, in some order (the members' DNs without those
  of the identifiers that qualify). When the write succeeds the count is the number of
  identifiers of the batch that qualify, not the length of the list written; when it fails
  the count is 0 and the error that of the write.
\<close>

theorem one_write_and_count:
  "(writes (snd (AddGroupMembers cl sched groupId membersIds)) \<noteq> [] \<longrightarrow>
      (\<exists>grp toAdd.
         fst (GetGroup cl (by_group_id groupId)) = Inr (Some grp) \<and>
         mset toAdd = mset (map (resolved_dn cl) (filter (add_qualifies cl groupId) membersIds)) \<and>
         writes (snd (AddGroupMembers cl sched groupId membersIds)) =
           [CallUpdateAttribute (Group_DN grp) ''member'' (map GroupMember_DN (Group_Members grp) @ toAdd)] \<and>
         (case updateAttribute cl (Group_DN grp) ''member'' (map GroupMember_DN (Group_Members grp) @ toAdd) of
            None \<Rightarrow> fst (AddGroupMembers cl sched groupId membersIds) =
                      (int (length (filter (add_qualifies cl groupId) membersIds)), None)
          | Some err \<Rightarrow> fst (AddGroupMembers cl sched groupId membersIds) = (0, Some err)))) \<and>
   (writes (snd (DeleteGroupMembers cl sched groupId membersIds)) \<noteq> [] \<longrightarrow>
      (\<exists>grp toDel.
         fst (GetGroup cl (by_group_id groupId)) = Inr (Some grp) \<and>
         mset toDel = mset (map (resolved_dn cl) (filter (del_qualifies cl groupId) membersIds)) \<and>
         writes (snd (DeleteGroupMembers cl sched groupId membersIds)) =
           [CallUpdateAttribute (Group_DN grp) ''member''
              (filter (\<lambda>dn. dn \<notin> set toDel) (map GroupMember_DN (Group_Members grp)))] \<and>
         (case updateAttribute cl (Group_DN grp) ''member''
                 (filter (\<lambda>dn. dn \<notin> set toDel) (map GroupMember_DN (Group_Members grp))) of
            None \<Rightarrow> fst (DeleteGroupMembers cl sched groupId membersIds) =
                      (int (length (filter (del_qualifies cl groupId) membersIds)), None)
          | Some err \<Rightarrow> fst (DeleteGroupMembers cl sched groupId membersIds) = (0, Some err))))"
proof (intro conjI impI)
  assume w: "writes (snd (AddGroupMembers cl sched groupId membersIds)) \<noteq> []"
  define order where "order = completion_order sched membersIds"
  define toAdd where "toAdd = map (resolved_dn cl) (filter (add_qualifies cl groupId) order)"
  define newMembers where "newMembers grp = map GroupMember_DN (Group_Members grp) @ toAdd"
    for grp :: Group
  have "\<not> (\<forall>grp. fst (GetGroup cl (by_group_id groupId)) \<noteq> Inr (Some grp))"
  proof
    assume "\<forall>grp. fst (GetGroup cl (by_group_id groupId)) \<noteq> Inr (Some grp)"
    from AddGroupMembers_not_found [OF this, of sched membersIds] writes_GetGroup [of cl "by_group_id groupId"] w
    show False by simp
  qed
  then obtain grp where "fst (GetGroup cl (by_group_id groupId)) = Inr (Some grp)" by blast
  from found_calls [OF this] obtain calls0 where
    g: "GetGroup cl (by_group_id groupId) = (Inr (Some grp), calls0)" and w0: "writes calls0 = []"
    by blast
  have ww: "writes (calls0 @ concat (map snd (map (add_worker cl groupId) order))) = []"
    by (simp add: writes_append w0 writes_add_workers del: map_map)
  note found = AddGroupMembers_found [OF g, of sched membersIds, folded order_def,
      unfolded Let_def MembersDn_map, folded toAdd_def, folded newMembers_def]
  have errs: "filter (\<lambda>userId. resolution_error cl userId \<noteq> None) order = []"
  proof (cases "filter (\<lambda>userId. resolution_error cl userId \<noteq> None) order")
    case (Cons a rest)
    with found ww w show ?thesis by simp
  qed simp
  have some: "toAdd \<noteq> []"
  proof
    assume "toAdd = []"
    with found errs ww w show False by simp
  qed
  have m: "mset toAdd = mset (map (resolved_dn cl) (filter (add_qualifies cl groupId) membersIds))"
    unfolding toAdd_def order_def by (rule mset_selected)
  have l: "length toAdd = length (filter (add_qualifies cl groupId) membersIds)"
    unfolding toAdd_def order_def by (simp add: length_selected)
  have wr: "writes (snd (AddGroupMembers cl sched groupId membersIds)) =
      [CallUpdateAttribute (Group_DN grp) ''member'' (newMembers grp)]"
    using found errs some ww
    by (cases "updateAttribute cl (Group_DN grp) ''member'' (newMembers grp)")
       (simp_all add: writes_append, simp_all add: writes_def)
  have res: "case updateAttribute cl (Group_DN grp) ''member'' (newMembers grp) of
            None \<Rightarrow> fst (AddGroupMembers cl sched groupId membersIds) =
                      (int (length (filter (add_qualifies cl groupId) membersIds)), None)
          | Some err \<Rightarrow> fst (AddGroupMembers cl sched groupId membersIds) = (0, Some err)"
    using found errs some l
    by (cases "updateAttribute cl (Group_DN grp) ''member'' (newMembers grp)") simp_all
  from g m wr res show "\<exists>grp toAdd.
         fst (GetGroup cl (by_group_id groupId)) = Inr (Some grp) \<and>
         mset toAdd = mset (map (resolved_dn cl) (filter (add_qualifies cl groupId) membersIds)) \<and>
         writes (snd (AddGroupMembers cl sched groupId membersIds)) =
           [CallUpdateAttribute (Group_DN grp) ''member'' (map GroupMember_DN (Group_Members grp) @ toAdd)] \<and>
         (case updateAttribute cl (Group_DN grp) ''member'' (map GroupMember_DN (Group_Members grp) @ toAdd) of
            None \<Rightarrow> fst (AddGroupMembers cl sched groupId membersIds) =
                      (int (length (filter (add_qualifies cl groupId) membersIds)), None)
          | Some err \<Rightarrow> fst (AddGroupMembers cl sched groupId membersIds) = (0, Some err))"
    unfolding newMembers_def by (intro exI [of _ grp] exI [of _ toAdd]) simp
next
  assume w: "writes (snd (DeleteGroupMembers cl sched groupId membersIds)) \<noteq> []"
  define order where "order = completion_order sched membersIds"
  define toDel where "toDel = map (resolved_dn cl) (filter (del_qualifies cl groupId) order)"
  define newMembers where
    "newMembers grp = filter (\<lambda>dn. dn \<notin> set toDel) (map GroupMember_DN (Group_Members grp))"
    for grp :: Group
  have "\<not> (\<forall>grp. fst (GetGroup cl (by_group_id groupId)) \<noteq> Inr (Some grp))"
  proof
    assume "\<forall>grp. fst (GetGroup cl (by_group_id groupId)) \<noteq> Inr (Some grp)"
    from DeleteGroupMembers_not_found [OF this, of sched membersIds] writes_GetGroup [of cl "by_group_id groupId"] w
    show False by simp
  qed
  then obtain grp where "fst (GetGroup cl (by_group_id groupId)) = Inr (Some grp)" by blast
  from found_calls [OF this] obtain calls0 where
    g: "GetGroup cl (by_group_id groupId) = (Inr (Some grp), calls0)" and w0: "writes calls0 = []"
    by blast
  have ww: "writes (calls0 @ concat (map snd (map (del_worker cl groupId) order))) = []"
    by (simp add: writes_append w0 writes_del_workers del: map_map)
  note found = DeleteGroupMembers_found [OF g, of sched membersIds, folded order_def,
      unfolded Let_def MembersDn_map, folded toDel_def, folded newMembers_def]
  have errs: "filter (\<lambda>userId. resolution_error cl userId \<noteq> None) order = []"
  proof (cases "filter (\<lambda>userId. resolution_error cl userId \<noteq> None) order")
    case (Cons a rest)
    with found ww w show ?thesis by simp
  qed simp
  have some: "toDel \<noteq> []"
  proof
    assume "toDel = []"
    with found errs ww w show False by simp
  qed
  have m: "mset toDel = mset (map (resolved_dn cl) (filter (del_qualifies cl groupId) membersIds))"
    unfolding toDel_def order_def by (rule mset_selected)
  have l: "length toDel = length (filter (del_qualifies cl groupId) membersIds)"
    unfolding toDel_def order_def by (simp add: length_selected)
  have wr: "writes (snd (DeleteGroupMembers cl sched groupId membersIds)) =
      [CallUpdateAttribute (Group_DN grp) ''member'' (newMembers grp)]"
    using found errs some ww
    by (cases "updateAttribute cl (Group_DN grp) ''member'' (newMembers grp)")
       (simp_all add: writes_append, simp_all add: writes_def)
  have res: "case updateAttribute cl (Group_DN grp) ''member'' (newMembers grp) of
            None \<Rightarrow> fst (DeleteGroupMembers cl sched groupId membersIds) =
                      (int (length (filter (del_qualifies cl groupId) membersIds)), None)
          | Some err \<Rightarrow> fst (DeleteGroupMembers cl sched groupId membersIds) = (0, Some err)"
    using found errs some l
    by (cases "updateAttribute cl (Group_DN grp) ''member'' (newMembers grp)") simp_all
  from g m wr res show "\<exists>grp toDel.
         fst (GetGroup cl (by_group_id groupId)) = Inr (Some grp) \<and>
         mset toDel = mset (map (resolved_dn cl) (filter (del_qualifies cl groupId) membersIds)) \<and>
         writes (snd (DeleteGroupMembers cl sched groupId membersIds)) =
           [CallUpdateAttribute (Group_DN grp) ''member''
              (filter (\<lambda>dn. dn \<notin> set toDel) (map GroupMember_DN (Group_Members grp)))] \<and>
         (case updateAttribute cl (Group_DN grp) ''member''
                 (filter (\<lambda>dn. dn \<notin> set toDel) (map GroupMember_DN (Group_Members grp))) of
            None \<Rightarrow> fst (DeleteGroupMembers cl sched groupId membersIds) =
                      (int (length (filter (del_qualifies cl groupId) membersIds)), None)
          | Some err \<Rightarrow> fst (DeleteGroupMembers cl sched groupId membersIds) = (0, Some err))"
    unfolding newMembers_def by (intro exI [of _ grp] exI [of _ toDel]) simp
qed

theorem one_write_and_count_witness:
  "writes (snd (AddGroupMembers fixture_client [] ''group1'' [''userToAdd'', ''user1''])) \<noteq> [] \<and>
   fst (AddGroupMembers fixture_client [] ''group1'' [''userToAdd'', ''user1'']) = (1, None) \<and>
   (\<exists>grp toAdd.
      fst (GetGroup fixture_client (by_group_id ''group1'')) = Inr (Some grp) \<and>
      mset toAdd = mset (map (resolved_dn fixture_client)
                           (filter (add_qualifies fixture_client ''group1'') [''userToAdd'', ''user1''])) \<and>
      writes (snd (AddGroupMembers fixture_client [] ''group1'' [''userToAdd'', ''user1''])) =
        [CallUpdateAttribute (Group_DN grp) ''member'' (map GroupMember_DN (Group_Members grp) @ toAdd)]) \<and>
   writes (snd (DeleteGroupMembers fixture_client [] ''group1'' [''userToAdd'', ''user1''])) \<noteq> [] \<and>
   fst (DeleteGroupMembers fixture_client [] ''group1'' [''userToAdd'', ''user1'']) = (1, None) \<and>
   (\<exists>grp toDel.
      fst (GetGroup fixture_client (by_group_id ''group1'')) = Inr (Some grp) \<and>
      mset toDel = mset (map (resolved_dn fixture_client)
                           (filter (del_qualifies fixture_client ''group1'') [''userToAdd'', ''user1''])) \<and>
      writes (snd (DeleteGroupMembers fixture_client [] ''group1'' [''userToAdd'', ''user1''])) =
        [CallUpdateAttribute (Group_DN grp) ''member''
           (filter (\<lambda>dn. dn \<notin> set toDel) (map GroupMember_DN (Group_Members grp)))])"
proof -
  have wa: "writes (snd (AddGroupMembers fixture_client [] ''group1'' [''userToAdd'', ''user1''])) \<noteq> []"
    by (simp add: fixture_defs lookup_defs batch_defs)
  have ra: "fst (AddGroupMembers fixture_client [] ''group1'' [''userToAdd'', ''user1'']) = (1, None)"
    by (simp add: fixture_defs lookup_defs batch_defs)
  have wd: "writes (snd (DeleteGroupMembers fixture_client [] ''group1'' [''userToAdd'', ''user1''])) \<noteq> []"
    by (simp add: fixture_defs lookup_defs batch_defs)
  have rd: "fst (DeleteGroupMembers fixture_client [] ''group1'' [''userToAdd'', ''user1'']) = (1, None)"
    by (simp add: fixture_defs lookup_defs batch_defs)
  from one_write_and_count [of fixture_client "[]" "''group1''" "[''userToAdd'', ''user1'']"] wa wd ra rd
  show ?thesis by blast
qed

subsection \<open>The two variants of the addition\<close>

lemma GetGroup_part000_eq:
  assumes "groupId \<noteq> ''''"
  shows "GetGroup_part000 cl
           (Some \<lparr>GetGroupequest_Id = groupId, GetGroupequest_Dn = '''',
                  GetGroupequest_Attributes = None, GetGroupequest_SkipMembersSearch = False\<rparr>) =
         GetGroup cl (by_group_id groupId)"
proof -
  define req where "req =
     \<lparr>BaseDN = Groups_SearchBase (Groups (Config cl)), Scope = ScopeWholeSubtree,
      DerefAliases = NeverDerefAliases, TimeLimit = Timeout (Config cl),
      Filter = Sprintf cl (Groups_FilterById (Groups (Config cl))) groupId,
      Attributes = Groups_Attributes (Groups (Config cl)), Controls = []\<rparr>"
  have r: "GetGroup_request cl (by_group_id groupId) = req"
    by (simp add: GetGroup_request_def by_group_id_def req_def)
  have v: "GetGroupArgs_Validate (by_group_id groupId) = None"
    using assms by (simp add: GetGroupArgs_Validate_def by_group_id_def)
  have s: "SkipMembersSearch (by_group_id groupId) = False"
    by (simp add: by_group_id_def)
  show ?thesis
  proof (cases "searchEntry cl req")
    case (Inl err)
    with assms v r show ?thesis
      by (simp add: GetGroup_part000_def GetGroup_def GetGroupequest_Validate_def req_def [symmetric])
  next
    case (Inr found)
    show ?thesis
    proof (cases found)
      case None
      with Inr assms v r show ?thesis
        by (simp add: GetGroup_part000_def GetGroup_def GetGroupequest_Validate_def req_def [symmetric])
    next
      case (Some entry)
      obtain m calls where g: "getGroupMembers cl (Entry_DN entry) = (m, calls)"
        by (cases "getGroupMembers cl (Entry_DN entry)")
      from Some Inr assms v r s g show ?thesis
        by (cases m)
           (simp_all add: GetGroup_part000_def GetGroup_def GetGroupequest_Validate_def Let_def
              req_def [symmetric])
    qed
  qed
qed

lemma add_worker_part000_eq:
  assumes "resolution_error cl userId = None"
  shows "add_worker_part000 (\<lambda>userId. GetUser cl (by_user_id userId)) groupId userId =
         add_worker cl groupId userId"
proof -
  obtain r calls where g: "GetUser cl (by_user_id userId) = (r, calls)"
    by (cases "GetUser cl (by_user_id userId)")
  from assms g obtain found where "r = Inr found"
    by (cases r) (simp_all add: resolution_error_def)
  with g show ?thesis
    by (cases found) (simp_all add: add_worker_part000_def add_worker_def)
qed

text \<open>
  Claim C2. When no lookup of an identifier of the batch returns an error, the
  \<^verbatim>\<open>AddGroupMembers\<close> of part\_000 (run on the lookup of user.go) and the
  \<^verbatim>\<open>AddGroupMembers\<close> of group.go return the same count and make the same calls to the
  directory, so the same writes: none, or one attribute-replace of the same list. The
  whole results are equal unless the group identifier is empty, where the two validation
  messages differ.
\<close>

theorem variants_agree_without_failures:
  assumes ok: "\<forall>userId \<in> set membersIds. \<forall>err. fst (GetUser cl (by_user_id userId)) \<noteq> Inl err"
  shows "fst (fst (AddGroupMembers_part000 cl (\<lambda>userId. GetUser cl (by_user_id userId)) sched groupId membersIds)) =
           fst (fst (AddGroupMembers cl sched groupId membersIds)) \<and>
         writes (snd (AddGroupMembers_part000 cl (\<lambda>userId. GetUser cl (by_user_id userId)) sched groupId membersIds)) =
           writes (snd (AddGroupMembers cl sched groupId membersIds)) \<and>
         snd (AddGroupMembers_part000 cl (\<lambda>userId. GetUser cl (by_user_id userId)) sched groupId membersIds) =
           snd (AddGroupMembers cl sched groupId membersIds) \<and>
         (groupId \<noteq> '''' \<longrightarrow>
            AddGroupMembers_part000 cl (\<lambda>userId. GetUser cl (by_user_id userId)) sched groupId membersIds =
              AddGroupMembers cl sched groupId membersIds)"
proof (cases "groupId = ''''")
  case True
  then show ?thesis
    by (simp add: AddGroupMembers_part000_def AddGroupMembers_def GetGroup_part000_def GetGroup_def
          GetGroupequest_Validate_def GetGroupArgs_Validate_def by_group_id_def)
next
  case False
  define order where "order = completion_order sched membersIds"
  have none: "resolution_error cl userId = None" if "userId \<in> set order" for userId
  proof (cases "resolution_error cl userId")
    case (Some err)
    with ok that show ?thesis
      by (simp add: resolution_error_iff order_def set_completion_order)
  qed simp
  then have workers: "map (add_worker_part000 (\<lambda>userId. GetUser cl (by_user_id userId)) groupId) order =
      map (add_worker cl groupId) order"
    by (simp add: add_worker_part000_eq)
  from none have "filter (\<lambda>userId. resolution_error cl userId \<noteq> None) order = []"
    by (simp add: filter_empty_conv)
  then have errs: "sent_errs (map fst (map (add_worker cl groupId) order)) = []"
    by (simp add: sent_errs_add del: map_map)
  have "AddGroupMembers_part000 cl (\<lambda>userId. GetUser cl (by_user_id userId)) sched groupId membersIds =
        AddGroupMembers cl sched groupId membersIds"
  proof -
    obtain r calls0 where g: "GetGroup cl (by_group_id groupId) = (r, calls0)"
      by (cases "GetGroup cl (by_group_id groupId)")
    note defs = AddGroupMembers_part000_def AddGroupMembers_def GetGroup_part000_eq [OF False] Let_def
      workers [unfolded order_def] errs [unfolded order_def]
    show ?thesis
    proof (cases r)
      case (Inl err)
      with g show ?thesis by (simp add: defs del: map_map)
    next
      case (Inr found)
      with g show ?thesis by (cases found) (simp_all add: defs del: map_map)
    qed
  qed
  then show ?thesis by simp
qed

theorem variants_agree_without_failures_witness:
  "(\<exists>user. fst (GetUser fixture_client (by_user_id ''userToAdd'')) = Inr (Some user)) \<and>
   (\<exists>user. fst (GetUser fixture_client (by_user_id ''user1'')) = Inr (Some user)) \<and>
   fst (GetUser fixture_client (by_user_id ''nobody'')) = Inr None \<and>
   fst (AddGroupMembers fixture_client [2, 0] ''group1'' [''userToAdd'', ''user1'', ''nobody'']) = (1, None) \<and>
   AddGroupMembers_part000 fixture_client (\<lambda>userId. GetUser fixture_client (by_user_id userId)) [2, 0]
       ''group1'' [''userToAdd'', ''user1'', ''nobody''] =
     AddGroupMembers fixture_client [2, 0] ''group1'' [''userToAdd'', ''user1'', ''nobody'']"
proof -
  have a: "\<exists>user. fst (GetUser fixture_client (by_user_id ''userToAdd'')) = Inr (Some user)"
    by (simp add: fixture_defs lookup_defs)
  have b: "\<exists>user. fst (GetUser fixture_client (by_user_id ''user1'')) = Inr (Some user)"
    by (simp add: fixture_defs lookup_defs)
  have c: "fst (GetUser fixture_client (by_user_id ''nobody'')) = Inr None"
    by (simp add: fixture_defs lookup_defs)
  have r: "fst (AddGroupMembers fixture_client [2, 0] ''group1'' [''userToAdd'', ''user1'', ''nobody'']) = (1, None)"
    by (simp add: fixture_defs lookup_defs batch_defs)
  from a b c have ok: "\<forall>userId \<in> set [''userToAdd'', ''user1'', ''nobody''].
      \<forall>err. fst (GetUser fixture_client (by_user_id userId)) \<noteq> Inl err"
    by auto
  from variants_agree_without_failures [OF ok, of "[2, 0]" "''group1''"] a b c r
  show ?thesis by simp
qed

subsection \<open>The paging loop on a server that serves its pages\<close>

lemma pages_served_Controls:
  "pages_served cl (req\<lparr>Controls := cs\<rparr>) pagingSize cookie srs = pages_served cl req pagingSize cookie srs"
  by (induction cl req pagingSize cookie srs rule: pages_served.induct)
     (simp_all split: option.splits)

lemma page_requests_Controls:
  "page_requests (req\<lparr>Controls := cs\<rparr>) pagingSize cookie srs = page_requests req pagingSize cookie srs"
  by (induction srs arbitrary: cookie) (simp_all split: option.splits)

lemma next_cookie_Some:
  "next_cookie sr = Some cookie' \<Longrightarrow>
     \<exists>size' rest. Result_Controls sr = Some (ControlPaging size' cookie' # rest) \<and> cookie' \<noteq> []"
  by (auto split: option.splits list.splits Control.splits if_splits)

lemma last_page_no_cookie: "last_page sr \<Longrightarrow> next_cookie sr = None"
  by (auto split: option.splits list.splits Control.splits)

lemma paging_loop_last:
  assumes "ldap_Search cl (req\<lparr>Controls := [ControlPaging pagingSize cookie]\<rparr>) = Inr sr"
      and "last_page sr"
  shows "paging_loop cl req pagingSize cookie entries calls =
           Some (Inr (entries @ Entries sr),
                 calls @ [CallSearch (req\<lparr>Controls := [ControlPaging pagingSize cookie]\<rparr>)])"
  using assms
  by (subst paging_loop.simps)
     (auto simp: Let_def split: option.splits list.splits Control.splits)

lemma paging_loop_next:
  assumes "ldap_Search cl (req\<lparr>Controls := [ControlPaging pagingSize cookie]\<rparr>) = Inr sr"
      and "next_cookie sr = Some cookie'"
  shows "paging_loop cl req pagingSize cookie entries calls =
           paging_loop cl (req\<lparr>Controls := [ControlPaging pagingSize cookie]\<rparr>) pagingSize cookie'
             (entries @ Entries sr)
             (calls @ [CallSearch (req\<lparr>Controls := [ControlPaging pagingSize cookie]\<rparr>)])"
proof -
  from next_cookie_Some [OF assms(2)] obtain size' rest where
    c: "Result_Controls sr = Some (ControlPaging size' cookie' # rest)" and n: "cookie' \<noteq> []"
    by blast
  show ?thesis
    by (subst paging_loop.simps) (simp add: assms(1) c n Let_def)
qed

lemma paging_loop_pages:
  assumes "pages_served cl req pagingSize cookie srs"
  shows "paging_loop cl req pagingSize cookie entries calls =
           Some (Inr (entries @ concat (map Entries srs)),
                 calls @ page_requests req pagingSize cookie srs)"
  using assms
proof (induction srs arbitrary: req cookie entries calls)
  case Nil
  then show ?case by simp
next
  case (Cons sr srs)
  define req' where "req' = req\<lparr>Controls := [ControlPaging pagingSize cookie]\<rparr>"
  show ?case
  proof (cases srs)
    case Nil
    with Cons.prems have s: "ldap_Search cl req' = Inr sr" and l: "last_page sr"
      by (simp_all add: req'_def)
    from paging_loop_last [OF s [unfolded req'_def] l, of entries calls] last_page_no_cookie [OF l] Nil
    show ?thesis by simp
  next
    case (Cons sr' srs')
    with Cons.prems have s: "ldap_Search cl req' = Inr sr"
      by (simp add: req'_def)
    from Cons Cons.prems obtain cookie' where n: "next_cookie sr = Some cookie'"
      and p: "pages_served cl req pagingSize cookie' srs"
      by (cases "next_cookie sr") simp_all
    from p have "pages_served cl req' pagingSize cookie' srs"
      by (simp only: req'_def pages_served_Controls)
    from Cons.IH [OF this] have
      "paging_loop cl req' pagingSize cookie' (entries @ Entries sr) (calls @ [CallSearch req']) =
         Some (Inr ((entries @ Entries sr) @ concat (map Entries srs)),
               (calls @ [CallSearch req']) @ page_requests req pagingSize cookie' srs)"
      by (simp only: req'_def page_requests_Controls)
    with paging_loop_next [OF s [unfolded req'_def] n, of entries calls] n show ?thesis
      by (simp add: req'_def)
  qed
qed

lemma length_page_requests:
  "pages_served cl req pagingSize cookie srs \<Longrightarrow>
     length (page_requests req pagingSize cookie srs) = length srs"
proof (induction srs arbitrary: cookie)
  case Nil
  then show ?case by simp
next
  case (Cons sr srs)
  show ?case
  proof (cases srs)
    case Nil
    with Cons.prems have "last_page sr" by simp
    from last_page_no_cookie [OF this] Nil show ?thesis by simp
  next
    case (Cons sr' srs')
    with Cons.prems obtain cookie' where n: "next_cookie sr = Some cookie'"
      and p: "pages_served cl req pagingSize cookie' srs"
      by (cases "next_cookie sr") simp_all
    from Cons.IH [OF p] n show ?thesis by simp
  qed
qed

text \<open>
  The listing of a server that serves its pages: the loop ends, after as many searches as
  there are pages, and \<^verbatim>\<open>ListUsers\<close> (\<^verbatim>\<open>ListGroups\<close>) returns one record for each entry
  of each page, in order, or \<^verbatim>\<open>nil\<close> when the pages have no entry.
\<close>

lemma listing_of_served_pages:
  "(pages_served cl (ListUsers_request cl uargs flt) (ucast pageSize) [] srs \<longrightarrow>
      ListUsers cl uargs pageSize flt =
        Some (if concat (map Entries srs) = [] then Inr None
              else Inr (Some (map (entry_to_User cl) (concat (map Entries srs)))),
              page_requests (ListUsers_request cl uargs flt) (ucast pageSize) [] srs) \<and>
      length (page_requests (ListUsers_request cl uargs flt) (ucast pageSize) [] srs) = length srs) \<and>
   (pages_served cl (ListGroups_request cl gargs flt) (ucast pageSize) [] srs \<longrightarrow>
      ListGroups cl gargs pageSize flt =
        Some (if concat (map Entries srs) = [] then Inr None
              else Inr (Some (map (entry_to_Group cl) (concat (map Entries srs)))),
              page_requests (ListGroups_request cl gargs flt) (ucast pageSize) [] srs) \<and>
      length (page_requests (ListGroups_request cl gargs flt) (ucast pageSize) [] srs) = length srs)"
  by (simp add: ListUsers_def ListGroups_def paging_loop_pages length_page_requests)

lemmas listing_defs =
  ListUsers_def ListGroups_def ListUsers_request_def ListGroups_request_def entry_to_User_def
  entry_to_Group_def paged_client_def paged_Search_def page1_def page2_def no_controls_client_def
  no_controls_page_def entry_named_def uid_client_def uid_config_def list_args_def

lemma listing_of_served_pages_example:
  "pages_served paged_client (ListUsers_request paged_client (by_user_id '''') '''') (ucast (2 :: 64 word)) []
     [page1, page2] \<and>
   (\<exists>calls. ListUsers paged_client (by_user_id '''') 2 '''' =
      Some (Inr (Some (map (entry_to_User paged_client)
                    [entry_named ''user1'', entry_named ''user2'', entry_named ''userToAdd''])), calls) \<and>
      length calls = 2)"
proof -
  have p: "pages_served paged_client (ListUsers_request paged_client (by_user_id '''') '''')
      (ucast (2 :: 64 word)) [] [page1, page2]"
    by (simp add: paged_client_def paged_Search_def page1_def page2_def)
  from listing_of_served_pages [of paged_client "by_user_id ''''" "''''" 2 "[page1, page2]"] p
  show ?thesis by (simp add: page1_def page2_def)
qed

text \<open>
  Claim C5. The listing returns the entries of all pages, and the loop ends after the
  first response that carries no paging control or whose paging cookie is empty. For a
  last page whose \<^verbatim>\<open>Controls\<close> are \<^verbatim>\<open>nil\<close>, or begin with a control that is no paging
  control or with a paging control whose cookie is empty, this is
  \<open>listing_of_served_pages\<close>. But the source does not end the loop on every response
  without a paging control: it tests \<^verbatim>\<open>sr.Controls == nil\<close> only, and on a
  \<^verbatim>\<open>Controls\<close> slice of length 0 that is not \<^verbatim>\<open>nil\<close> the read of \<^verbatim>\<open>sr.Controls[0]\<close>
  panics. Here the server answers the first search with one entry and such a slice: the
  listing ends in the panic instead of returning the entry.
\<close>

theorem listing_panics_without_controls:
  "(\<forall>req. ldap_Search no_controls_client req =
           Inr \<lparr>Entries = [entry_named ''user1''], Result_Controls = Some []\<rparr>) \<and>
   (\<exists>calls. ListUsers no_controls_client (by_user_id '''') 100 '''' = Some (Inl PanicIndexOutOfRange, calls)) \<and>
   (\<exists>calls. ListGroups no_controls_client list_args 100 '''' = Some (Inl PanicIndexOutOfRange, calls))"
  by (simp add: ListUsers_def ListGroups_def paging_loop.simps no_controls_client_def no_controls_page_def)

text \<open>
  Claim C6. The Id of every record of \<^verbatim>\<open>ListGroups\<close> is the first value of the
  identifier attribute configured for groups, or empty when the entry has none. The
  source reads \<^verbatim>\<open>cl.Config.Users.IdAttribute\<close> there: with \<^verbatim>\<open>uid\<close> as the identifier
  attribute of users and \<^verbatim>\<open>sAMAccountName\<close> as that of groups, \<^verbatim>\<open>ListGroups\<close> returns
  the group \<^verbatim>\<open>group1\<close> with an empty Id, although the entry has the value \<^verbatim>\<open>group1\<close>
  for the identifier attribute of groups, which \<^verbatim>\<open>GetGroup\<close> returns as the Id of the
  same entry.
\<close>

theorem ListGroups_reads_users_id_attribute:
  "(\<exists>grp calls.
      ListGroups uid_client list_args 10 ''customFilterToSearchGroup'' = Some (Inr (Some [grp]), calls) \<and>
      Group_DN grp = ''OU=group1,DC=company,DC=com'' \<and> Group_Id grp = '''') \<and>
   (\<exists>grp calls.
      GetGroup uid_client args_filter_and_id = (Inr (Some grp), calls) \<and>
      Group_DN grp = ''OU=group1,DC=company,DC=com'' \<and> Group_Id grp = ''group1'') \<and>
   Groups_IdAttribute (Groups (Config uid_client)) = ''sAMAccountName'' \<and>
   Users_IdAttribute (Users (Config uid_client)) = ''uid''"
  by (simp add: listing_defs paging_loop.simps fixture_defs lookup_defs args_filter_and_id_def)

end
